theory Spec2Isabelle
  imports Complex_Main "HOL-Library.Char_ord" "HOL-Library.List_Lexorder"
begin

section \<open>Data model\<close>

text \<open>
  The services of \<^verbatim>\<open>apps/ai-insights/services\<close> work on Python floats, pandas
  timestamps and data frames. Amounts, confidences and scores are modelled as real numbers
  (rounding errors of IEEE doubles are not modelled); the one place where the code relies on
  a NaN, the z-score of a constant series, is modelled with \<open>None\<close> standing for NaN.
  A data frame is the list of its rows, in row order.
\<close>

text \<open>
  What \<^verbatim>\<open>pd.to_datetime\<close> returns: the instant in nanoseconds since the epoch
  (\<^verbatim>\<open>Timestamp.value\<close>, which orders timestamps and gives their differences), and
  the calendar fields the services read from it.
\<close>

record Timestamp =
  ts_value :: int
  ts_hour :: nat
  ts_dayofweek :: nat
  ts_day :: nat
  ts_ymd :: string

text \<open>
  Modelled from the spec: \<^verbatim>\<open>models/schemas.py\<close> (TransactionData, AnomalyResponse,
  AnomalyType, RisingPaymentResponse) is not among the sources; the fields are those the
  services read and write. The free-text fields \<^verbatim>\<open>description\<close> and
  \<^verbatim>\<open>recommendation\<close> of AnomalyResponse, built by formatting floats, are left out.
\<close>

record TransactionData =
  txn_id :: string
  posted_at :: string
  txn_amount :: real
  txn_category :: string
  merchant_name :: string
  txn_is_recurring :: bool

datatype AnomalyType = UNUSUAL_AMOUNT | UNUSUAL_MERCHANT | UNUSUAL_TIMING | UNUSUAL_FREQUENCY

record AnomalyResponse =
  transaction_id :: string
  anomaly_type :: AnomalyType
  severity :: string
  confidence :: real
  expected_value :: "real option"
  actual_value :: real
  z_score :: real

text \<open>Exceptions that the modelled code can raise inside the \<^verbatim>\<open>try\<close> blocks.\<close>

datatype py_error = ValueError | KeyError

text \<open>A row of the data frame built by \<^verbatim>\<open>AnomalyDetectionService._prepare_data\<close>.\<close>

record row =
  id_col :: string
  date :: Timestamp
  amount :: real
  category :: string
  merchant :: string
  is_recurring :: bool
  hour :: nat
  day_of_week :: nat
  day_of_month :: nat

section \<open>Library functions (numpy, scipy, pandas)\<close>

definition mean :: "real list \<Rightarrow> real" where
  "mean xs = sum_list xs / real (length xs)"

text \<open>\<^verbatim>\<open>np.std\<close>: the population standard deviation (ddof = 0).\<close>

definition np_std :: "real list \<Rightarrow> real" where
  "np_std xs = sqrt (sum_list (map (\<lambda>x. (x - mean xs)\<^sup>2) xs) / real (length xs))"

text \<open>\<^verbatim>\<open>Series.std\<close> of pandas: the sample standard deviation (ddof = 1).\<close>

definition pd_std :: "real list \<Rightarrow> real" where
  "pd_std xs = sqrt (sum_list (map (\<lambda>x. (x - mean xs)\<^sup>2) xs) / real (length xs - 1))"

text \<open>
  \<^verbatim>\<open>np.abs(stats.zscore(a))\<close>: each value's distance from the mean in population
  standard deviations. For a constant series the standard deviation is 0 and every z-score
  is NaN (\<open>None\<close>).
\<close>

definition abs_zscore :: "real list \<Rightarrow> real option list" where
  "abs_zscore xs =
     (if np_std xs = 0 then map (\<lambda>x. None) xs
      else map (\<lambda>x. Some (\<bar>(x - mean xs) / np_std xs\<bar>)) xs)"

text \<open>A comparison \<^verbatim>\<open>z > t\<close> with a NaN on the left is false.\<close>

definition nan_gt :: "real option \<Rightarrow> real \<Rightarrow> bool" where
  "nan_gt z t = (case z of None \<Rightarrow> False | Some v \<Rightarrow> v > t)"

text \<open>\<^verbatim>\<open>Series.unique()\<close>: the distinct values in order of first appearance.\<close>

fun unique :: "'a list \<Rightarrow> 'a list" where
  "unique [] = []"
| "unique (x # xs) = x # unique (filter (\<lambda>y. y \<noteq> x) xs)"

text \<open>
  \<^verbatim>\<open>Series.mode().tolist()\<close>: the most frequent values, in ascending order.
\<close>

definition mode_list :: "string list \<Rightarrow> string list" where
  "mode_list xs =
     (let cnt = (\<lambda>c. length (filter (\<lambda>y. y = c) xs));
          top = fold max (map cnt xs) 0
      in sort (filter (\<lambda>c. cnt c = top) (unique xs)))"

text \<open>
  \<^verbatim>\<open>df.sort_values('date')\<close>: the rows in ascending order of the timestamp. Rows
  with equal timestamps are kept in their order, as the spec describes the sort; the default
  sort of pandas promises no particular order for them.
\<close>

definition sort_values_date :: "row list \<Rightarrow> row list" where
  "sort_values_date df = sort_key (\<lambda>r. ts_value (date r)) df"

text \<open>
  \<^verbatim>\<open>sorted(xs, key=..., reverse=True)\<close> of Python: descending by the key, and
  stable (elements with equal keys keep their order).
\<close>

definition sorted_reverse :: "('a \<Rightarrow> real) \<Rightarrow> 'a list \<Rightarrow> 'a list" where
  "sorted_reverse key xs = sort_key (\<lambda>x. - key x) xs"

section \<open>AnomalyDetectionService\<close>

subsection \<open>\<^verbatim>\<open>_prepare_data\<close>\<close>

definition mk_row :: "TransactionData \<Rightarrow> Timestamp \<Rightarrow> row" where
  "mk_row txn d =
     \<lparr> id_col = txn_id txn, date = d, amount = \<bar>txn_amount txn\<bar>,
       category = txn_category txn, merchant = merchant_name txn,
       is_recurring = txn_is_recurring txn, hour = ts_hour d,
       day_of_week = ts_dayofweek d, day_of_month = ts_day d \<rparr>"

text \<open>
  The loop over the transactions. \<open>to_datetime\<close> is the parser of pandas, a parameter:
  \<open>None\<close> where it raises on an unparsable string.
\<close>

fun prepare_rows :: "(string \<Rightarrow> Timestamp option) \<Rightarrow> TransactionData list \<Rightarrow> py_error + row list" where
  "prepare_rows to_datetime [] = Inr []"
| "prepare_rows to_datetime (txn # txns) =
     (case to_datetime (posted_at txn) of
        None \<Rightarrow> Inl ValueError
      | Some d \<Rightarrow>
          (case prepare_rows to_datetime txns of
             Inl e \<Rightarrow> Inl e
           | Inr data \<Rightarrow> Inr (mk_row txn d # data)))"

text \<open>Sorting a frame without rows has no column \<^verbatim>\<open>'date'\<close>: KeyError.\<close>

definition prepare_data :: "(string \<Rightarrow> Timestamp option) \<Rightarrow> TransactionData list \<Rightarrow> py_error + row list" where
  "prepare_data to_datetime transactions =
     (case prepare_rows to_datetime transactions of
        Inl e \<Rightarrow> Inl e
      | Inr data \<Rightarrow> if data = [] then Inl KeyError else Inr (sort_values_date data))"

subsection \<open>Severity\<close>

definition calculate_severity :: "real \<Rightarrow> real \<Rightarrow> string" where
  "calculate_severity z threshold =
     (if z > threshold * 2 then ''high''
      else if z > threshold * 1.5 then ''medium''
      else ''low'')"

definition calculate_severity_from_score :: "real \<Rightarrow> string" where
  "calculate_severity_from_score score =
     (if score < - 0.3 then ''high''
      else if score < - 0.1 then ''medium''
      else ''low'')"

subsection \<open>\<^verbatim>\<open>_detect_statistical_anomalies\<close>\<close>

text \<open>
  One z-score pass over a frame \<open>rows\<close>: the records whose z-score exceeds \<open>threshold\<close>,
  with the confidence \<open>min cap (z / scale)\<close>.
\<close>

definition zscore_finding :: "real \<Rightarrow> real \<Rightarrow> real \<Rightarrow> real \<Rightarrow> row \<Rightarrow> real \<Rightarrow> AnomalyResponse" where
  "zscore_finding threshold cap scale expected r z =
     \<lparr> transaction_id = id_col r, anomaly_type = UNUSUAL_AMOUNT,
       severity = calculate_severity z threshold, confidence = min cap (z / scale),
       expected_value = Some expected, actual_value = amount r, z_score = z \<rparr>"

definition zscore_pass :: "real \<Rightarrow> real \<Rightarrow> real \<Rightarrow> row list \<Rightarrow> AnomalyResponse list" where
  "zscore_pass threshold cap scale rows =
     (let amounts = map amount rows in
      List.map_filter
        (\<lambda>(r, z). if nan_gt z threshold
                   then Some (zscore_finding threshold cap scale (mean amounts) r (the z))
                   else None)
        (zip rows (abs_zscore amounts)))"

definition global_pass :: "row list \<Rightarrow> AnomalyResponse list" where
  "global_pass df = zscore_pass 3.0 0.95 5.0 df"

definition category_pass :: "row list \<Rightarrow> AnomalyResponse list" where
  "category_pass df =
     concat (map (\<lambda>c. let category_data = filter (\<lambda>r. category r = c) df
                       in if length category_data < 3 then []
                          else zscore_pass 2.5 0.90 4.0 category_data)
                 (unique (map category df)))"

definition detect_statistical_anomalies :: "row list \<Rightarrow> AnomalyResponse list" where
  "detect_statistical_anomalies df = global_pass df @ category_pass df"

subsection \<open>\<^verbatim>\<open>_detect_ml_anomalies\<close>\<close>

text \<open>
  The feature matrix handed to the scaler and the isolation forest. The two sklearn
  estimators are a parameter \<open>isolation_forest\<close>: from the feature matrix to the label
  (\<open>- 1\<close> for an outlier) and the decision score of each row.
\<close>

definition features :: "row list \<Rightarrow> real list list" where
  "features df =
     map (\<lambda>r. [amount r, real (hour r), real (day_of_week r), real (day_of_month r),
                real (length (filter (\<lambda>r'. merchant r' = merchant r) df)),
                real (length (filter (\<lambda>r'. category r' = category r) df))]) df"

definition ml_finding :: "row \<Rightarrow> real \<Rightarrow> AnomalyResponse" where
  "ml_finding r score =
     \<lparr> transaction_id = id_col r, anomaly_type = UNUSUAL_MERCHANT,
       severity = calculate_severity_from_score score, confidence = min 0.95 (\<bar>score\<bar> * 2),
       expected_value = None, actual_value = amount r, z_score = score \<rparr>"

definition detect_ml_anomalies :: "(real list list \<Rightarrow> (int \<times> real) list) \<Rightarrow> row list \<Rightarrow> AnomalyResponse list" where
  "detect_ml_anomalies isolation_forest df =
     (if length df < 20 then []
      else List.map_filter
             (\<lambda>(r, (label, score)). if label = - 1 then Some (ml_finding r score) else None)
             (zip df (isolation_forest (features df))))"

subsection \<open>\<^verbatim>\<open>_detect_merchant_anomalies\<close>\<close>

record profile =
  avg_amount :: real
  std_amount :: real
  typical_categories :: "string list"
  transaction_count :: nat

definition build_profile :: "row list \<Rightarrow> profile" where
  "build_profile merchant_data =
     \<lparr> avg_amount = mean (map amount merchant_data),
       std_amount = pd_std (map amount merchant_data),
       typical_categories = mode_list (map category merchant_data),
       transaction_count = length merchant_data \<rparr>"

text \<open>The dictionary \<^verbatim>\<open>merchant_profiles\<close>, filled merchant by merchant.\<close>

definition merchant_profiles :: "row list \<Rightarrow> (string \<rightharpoonup> profile)" where
  "merchant_profiles df =
     fold (\<lambda>m profiles.
             let merchant_data = filter (\<lambda>r. merchant r = m) df
             in if length merchant_data \<ge> 2 then profiles(m \<mapsto> build_profile merchant_data)
                else profiles)
          (unique (map merchant df)) Map.empty"

definition merchant_check :: "(string \<rightharpoonup> profile) \<Rightarrow> row \<Rightarrow> AnomalyResponse option" where
  "merchant_check profiles r =
     (case profiles (merchant r) of
        None \<Rightarrow> None
      | Some p \<Rightarrow>
          if std_amount p > 0 then
            (let z = \<bar>amount r - avg_amount p\<bar> / std_amount p
             in if z > 2.0 \<and> transaction_count p \<ge> 3
                then Some \<lparr> transaction_id = id_col r, anomaly_type = UNUSUAL_AMOUNT,
                            severity = calculate_severity z 2.0, confidence = min 0.85 (z / 3.0),
                            expected_value = Some (avg_amount p), actual_value = amount r,
                            z_score = z \<rparr>
                else None)
          else None)"

definition detect_merchant_anomalies :: "row list \<Rightarrow> AnomalyResponse list" where
  "detect_merchant_anomalies df = List.map_filter (merchant_check (merchant_profiles df)) df"

subsection \<open>\<^verbatim>\<open>_detect_temporal_anomalies\<close>\<close>

definition timing_finding :: "row \<Rightarrow> AnomalyResponse" where
  "timing_finding r =
     \<lparr> transaction_id = id_col r, anomaly_type = UNUSUAL_TIMING, severity = ''medium'',
       confidence = 0.70, expected_value = None, actual_value = real (hour r), z_score = 0 \<rparr>"

definition frequency_finding :: "row \<Rightarrow> AnomalyResponse" where
  "frequency_finding r =
     \<lparr> transaction_id = id_col r, anomaly_type = UNUSUAL_FREQUENCY, severity = ''high'',
       confidence = 0.80, expected_value = None, actual_value = 5, z_score = 0 \<rparr>"

definition timing_pass :: "row list \<Rightarrow> AnomalyResponse list" where
  "timing_pass df = map timing_finding (filter (\<lambda>r. 2 \<le> hour r \<and> hour r \<le> 5) df)"

text \<open>\<^verbatim>\<open>df_sorted.iloc[i:i+5]\<close>\<close>

definition window :: "row list \<Rightarrow> nat \<Rightarrow> row list" where
  "window df_sorted i = take 5 (drop i df_sorted)"

text \<open>
  The span of a window in hours: the difference of the latest and the earliest timestamp,
  in nanoseconds, as \<^verbatim>\<open>total_seconds() / 3600\<close>.
\<close>

definition time_span :: "row list \<Rightarrow> real" where
  "time_span w =
     (let ds = map (\<lambda>r. ts_value (date r)) w
      in real_of_int (Max (set ds) - Min (set ds)) / 1000000000 / 3600)"

text \<open>
  The loop over \<^verbatim>\<open>range(len(df_sorted) - 4)\<close> with its \<^verbatim>\<open>break\<close>: the first
  index whose window spans at most an hour decides.
\<close>

definition frequency_pass :: "row list \<Rightarrow> AnomalyResponse list" where
  "frequency_pass df =
     (let df_sorted = sort_values_date df
      in case find (\<lambda>i. time_span (window df_sorted i) \<le> 1.0) [0 ..< length df_sorted - 4] of
           None \<Rightarrow> []
         | Some i \<Rightarrow> map frequency_finding (window df_sorted i))"

definition detect_temporal_anomalies :: "row list \<Rightarrow> AnomalyResponse list" where
  "detect_temporal_anomalies df = timing_pass df @ frequency_pass df"

subsection \<open>\<^verbatim>\<open>_deduplicate_anomalies\<close> and \<^verbatim>\<open>detect_anomalies\<close>\<close>

fun dedup_loop :: "string set \<Rightarrow> AnomalyResponse list \<Rightarrow> AnomalyResponse list" where
  "dedup_loop seen_transactions [] = []"
| "dedup_loop seen_transactions (anomaly # rest) =
     (if transaction_id anomaly \<notin> seen_transactions
      then anomaly # dedup_loop (insert (transaction_id anomaly) seen_transactions) rest
      else dedup_loop seen_transactions rest)"

definition deduplicate_anomalies :: "AnomalyResponse list \<Rightarrow> AnomalyResponse list" where
  "deduplicate_anomalies anomalies = dedup_loop {} (sorted_reverse confidence anomalies)"

text \<open>The findings of the four detectors, in the order in which they are collected.\<close>

definition candidates :: "(real list list \<Rightarrow> (int \<times> real) list) \<Rightarrow> row list \<Rightarrow> AnomalyResponse list" where
  "candidates isolation_forest df =
     detect_statistical_anomalies df @ detect_ml_anomalies isolation_forest df
       @ detect_merchant_anomalies df @ detect_temporal_anomalies df"

text \<open>The body of the \<^verbatim>\<open>try\<close> block: \<open>Inl\<close> is an exception raised inside it.\<close>

definition detect_anomalies_try ::
  "(string \<Rightarrow> Timestamp option) \<Rightarrow> (real list list \<Rightarrow> (int \<times> real) list) \<Rightarrow>
   TransactionData list \<Rightarrow> py_error + AnomalyResponse list" where
  "detect_anomalies_try to_datetime isolation_forest transactions =
     (if length transactions < 10 then Inr []
      else case prepare_data to_datetime transactions of
             Inl e \<Rightarrow> Inl e
           | Inr df \<Rightarrow>
               Inr (sorted_reverse confidence
                      (deduplicate_anomalies (candidates isolation_forest df))))"

text \<open>
  \<^verbatim>\<open>detect_anomalies\<close>: \<^verbatim>\<open>except Exception\<close> logs the error and returns the
  empty list. \<open>Inl\<close> would be an exception that reaches the caller.
\<close>

definition detect_anomalies ::
  "(string \<Rightarrow> Timestamp option) \<Rightarrow> (real list list \<Rightarrow> (int \<times> real) list) \<Rightarrow>
   TransactionData list \<Rightarrow> py_error + AnomalyResponse list" where
  "detect_anomalies to_datetime isolation_forest transactions =
     (case detect_anomalies_try to_datetime isolation_forest transactions of
        Inl e \<Rightarrow> Inr []
      | Inr anomalies \<Rightarrow> Inr anomalies)"

section \<open>PaymentAnalysisService\<close>

text \<open>
  Modelled from the spec: RisingPaymentResponse of \<^verbatim>\<open>models/schemas.py\<close>, with the
  fields that \<^verbatim>\<open>_analyze_merchant_payments\<close> fills.
\<close>

record RisingPaymentResponse =
  rp_merchant_name :: string
  rp_category :: string
  current_amount :: real
  previous_amount :: real
  increase_percentage :: real
  increase_amount :: real
  frequency :: string
  rp_confidence :: real
  first_detected :: string
  last_payment :: string
  recommendation :: string

text \<open>A row of the data frame built by \<^verbatim>\<open>PaymentAnalysisService._prepare_data\<close>.\<close>

record prow =
  p_date :: Timestamp
  p_amount :: real
  p_merchant :: string
  p_category :: string
  p_is_recurring :: bool

subsection \<open>Library functions\<close>

definition sort_values_pdate :: "prow list \<Rightarrow> prow list" where
  "sort_values_pdate df = sort_key (\<lambda>r. ts_value (p_date r)) df"

text \<open>
  The slope of \<^verbatim>\<open>np.polyfit(x, y, 1)\<close>: the least-squares line through the points,
  in closed form.
\<close>

definition polyfit_slope :: "real list \<Rightarrow> real list \<Rightarrow> real" where
  "polyfit_slope xs ys =
     (let n = real (length xs); sx = sum_list xs; sy = sum_list ys;
          sxy = sum_list (map2 (*) xs ys); sxx = sum_list (map (\<lambda>x. x * x) xs)
      in (n * sxy - sx * sy) / (n * sxx - sx * sx))"

text \<open>\<^verbatim>\<open>round(x, ndigits)\<close>: to the nearest multiple of \<open>10 ^ -ndigits\<close>, ties to even.\<close>

definition round_half_even :: "real \<Rightarrow> int" where
  "round_half_even x =
     (let f = \<lfloor>x\<rfloor>
      in if x - real_of_int f < 1 / 2 then f
         else if x - real_of_int f > 1 / 2 then f + 1
         else if even f then f else f + 1)"

definition py_round :: "real \<Rightarrow> nat \<Rightarrow> real" where
  "py_round x ndigits = real_of_int (round_half_even (x * 10 ^ ndigits)) / 10 ^ ndigits"

text \<open>\<^verbatim>\<open>str(n)\<close> for a natural number, and \<^verbatim>\<open>int(x)\<close>, which truncates towards zero.\<close>

fun str_nat :: "nat \<Rightarrow> string" where
  "str_nat n = (if n < 10 then [char_of (48 + n)] else str_nat (n div 10) @ [char_of (48 + n mod 10)])"

declare str_nat.simps [simp del]

definition str_int :: "int \<Rightarrow> string" where
  "str_int i = (if i < 0 then CHR ''-'' # str_nat (nat (- i)) else str_nat (nat i))"

definition py_int :: "real \<Rightarrow> int" where
  "py_int x = (if x \<ge> 0 then \<lfloor>x\<rfloor> else \<lceil>x\<rceil>)"

subsection \<open>\<^verbatim>\<open>_prepare_data\<close>\<close>

definition mk_prow :: "TransactionData \<Rightarrow> Timestamp \<Rightarrow> prow" where
  "mk_prow txn d =
     \<lparr> p_date = d, p_amount = \<bar>txn_amount txn\<bar>, p_merchant = merchant_name txn,
       p_category = txn_category txn, p_is_recurring = txn_is_recurring txn \<rparr>"

text \<open>Only spending (a negative amount) is kept, and only its timestamp is parsed.\<close>

fun payment_prepare_rows :: "(string \<Rightarrow> Timestamp option) \<Rightarrow> TransactionData list \<Rightarrow> py_error + prow list" where
  "payment_prepare_rows to_datetime [] = Inr []"
| "payment_prepare_rows to_datetime (txn # txns) =
     (if txn_amount txn < 0 then
        (case to_datetime (posted_at txn) of
           None \<Rightarrow> Inl ValueError
         | Some d \<Rightarrow>
             (case payment_prepare_rows to_datetime txns of
                Inl e \<Rightarrow> Inl e
              | Inr data \<Rightarrow> Inr (mk_prow txn d # data)))
      else payment_prepare_rows to_datetime txns)"

definition payment_prepare_data :: "(string \<Rightarrow> Timestamp option) \<Rightarrow> TransactionData list \<Rightarrow> py_error + prow list" where
  "payment_prepare_data to_datetime transactions =
     (case payment_prepare_rows to_datetime transactions of
        Inl e \<Rightarrow> Inl e
      | Inr data \<Rightarrow> Inr (if length data > 0 then sort_values_pdate data else data))"

subsection \<open>Intervals between payments\<close>

text \<open>
  The whole days between consecutive payments: \<^verbatim>\<open>(dates[i] - dates[i-1]).days\<close> for
  \<open>i\<close> from 1, the floor of the difference in days.
\<close>

definition intervals :: "prow list \<Rightarrow> int list" where
  "intervals grp =
     (let dates = map (\<lambda>r. ts_value (p_date r)) grp
      in map2 (\<lambda>prev cur. (cur - prev) div 86400000000000) dates (tl dates))"

definition is_recurring_pattern :: "prow list \<Rightarrow> bool" where
  "is_recurring_pattern grp =
     (if length grp < 3 then False
      else let ivs = intervals grp in
        if ivs = [] then False
        else let avg_interval = mean (map real_of_int ivs);
                 std_interval = np_std (map real_of_int ivs) in
          if 7 \<le> avg_interval \<and> avg_interval \<le> 90 \<and> std_interval < avg_interval * 0.3 then True
          else let monthly_intervals = filter (\<lambda>i. 25 \<le> i \<and> i \<le> 35) ivs in
            if real (length monthly_intervals) \<ge> real (length ivs) * 0.7 then True
            else False)"

definition determine_frequency :: "prow list \<Rightarrow> string" where
  "determine_frequency grp =
     (if length grp < 2 then ''unknown''
      else let avg_interval = mean (map real_of_int (intervals grp)) in
        if avg_interval \<le> 10 then ''weekly''
        else if 25 \<le> avg_interval \<and> avg_interval \<le> 35 then ''monthly''
        else if 85 \<le> avg_interval \<and> avg_interval \<le> 95 then ''quarterly''
        else if avg_interval \<ge> 350 then ''yearly''
        else ''every_'' @ str_int (py_int avg_interval) @ ''_days'')"

definition has_consistent_intervals :: "prow list \<Rightarrow> bool" where
  "has_consistent_intervals grp =
     (if length grp < 3 then False
      else let ivs = map real_of_int (intervals grp);
               std_dev = np_std ivs; mean_interval = mean ivs
           in if mean_interval > 0 then std_dev < mean_interval * 0.2 else False)"

definition calculate_confidence :: "prow list \<Rightarrow> real \<Rightarrow> real \<Rightarrow> real" where
  "calculate_confidence grp slope pct =
     (let c0 = 0.5;
          c1 = c0 + min 0.2 (real (length grp) / 50);
          c2 = c1 + min 0.2 (slope / 10);
          c3 = c2 + min 0.2 (pct / 100);
          c4 = (if has_consistent_intervals grp then c3 + 0.1 else c3)
      in min 0.95 (max 0.3 c4))"

definition generate_recommendation :: "string \<Rightarrow> real \<Rightarrow> string \<Rightarrow> string" where
  "generate_recommendation m pct freq =
     (if pct > 50 then
        ''Review your '' @ freq @ '' payment to '' @ m
          @ '' - it has increased significantly. Consider contacting them about the price change or looking for alternatives.''
      else if pct > 20 then
        ''Your '' @ freq @ '' payment to '' @ m
          @ '' has increased notably. You may want to review your subscription or service plan.''
      else
        ''Your '' @ freq @ '' payment to '' @ m
          @ '' has increased moderately. This could be due to plan changes or price adjustments.'')"

subsection \<open>\<^verbatim>\<open>_analyze_merchant_payments\<close>\<close>

text \<open>The percentage by which the last amount exceeds the first; 0 when the first is not positive.\<close>

definition increase_percentage_of :: "real \<Rightarrow> real \<Rightarrow> real" where
  "increase_percentage_of older_amount recent_amount =
     (if older_amount > 0 then ((recent_amount - older_amount) / older_amount) * 100 else 0)"

definition analyze_merchant_payments :: "string \<Rightarrow> prow list \<Rightarrow> RisingPaymentResponse option" where
  "analyze_merchant_payments m grp0 =
     (let grp = sort_values_pdate grp0 in
      if \<not> is_recurring_pattern grp then None
      else let amounts = map p_amount grp in
        if length amounts < 3 then None
        else let x = map real [0 ..< length amounts];
                 slope = polyfit_slope x amounts in
          if slope \<le> 0.5 then None
          else let recent_amount = last amounts;
                   older_amount = hd amounts;
                   inc_amount = recent_amount - older_amount;
                   pct = increase_percentage_of older_amount recent_amount in
            if pct < 5 then None
            else let freq = determine_frequency grp;
                     conf = calculate_confidence grp slope pct;
                     rec = generate_recommendation m pct freq
                 in Some \<lparr> rp_merchant_name = m,
                           rp_category = p_category (last grp),
                           current_amount = py_round recent_amount 2,
                           previous_amount = py_round older_amount 2,
                           increase_percentage = py_round pct 1,
                           increase_amount = py_round inc_amount 2,
                           frequency = freq,
                           rp_confidence = conf,
                           first_detected = ts_ymd (p_date (hd grp)),
                           last_payment = ts_ymd (p_date (last grp)),
                           recommendation = rec \<rparr>)"

subsection \<open>\<^verbatim>\<open>detect_rising_payments\<close>\<close>

text \<open>
  \<^verbatim>\<open>df.groupby('merchant')\<close> yields the groups in ascending order of the merchant
  name, each with its rows in the order of the frame. A frame without rows has no column
  \<^verbatim>\<open>'merchant'\<close>: KeyError.
\<close>

definition rising_payments_of :: "prow list \<Rightarrow> RisingPaymentResponse list" where
  "rising_payments_of df =
     List.map_filter
       (\<lambda>m. let grp = filter (\<lambda>r. p_merchant r = m) df
             in if length grp < 3 then None else analyze_merchant_payments m grp)
       (sort (remdups (map p_merchant df)))"

definition detect_rising_payments_try ::
  "(string \<Rightarrow> Timestamp option) \<Rightarrow> TransactionData list \<Rightarrow> py_error + RisingPaymentResponse list" where
  "detect_rising_payments_try to_datetime transactions =
     (if length transactions < 10 then Inr []
      else case payment_prepare_data to_datetime transactions of
             Inl e \<Rightarrow> Inl e
           | Inr df \<Rightarrow>
               if df = [] then Inl KeyError
               else Inr (take 10 (sorted_reverse increase_percentage (rising_payments_of df))))"

definition detect_rising_payments ::
  "(string \<Rightarrow> Timestamp option) \<Rightarrow> TransactionData list \<Rightarrow> py_error + RisingPaymentResponse list" where
  "detect_rising_payments to_datetime transactions =
     (case detect_rising_payments_try to_datetime transactions of
        Inl e \<Rightarrow> Inr []
      | Inr rising_payments \<Rightarrow> Inr rising_payments)"

section \<open>Auxiliary definitions\<close>

text \<open>
  The test of one row in a z-score pass whose mean is \<open>mu\<close> and whose standard deviation
  \<open>sd\<close> is not 0; an auxiliary of the proofs.
\<close>

definition zcheck :: "real \<Rightarrow> real \<Rightarrow> real \<Rightarrow> real \<Rightarrow> real \<Rightarrow> row \<Rightarrow> AnomalyResponse option" where
  "zcheck t cap s mu sd r =
     (if \<bar>(amount r - mu) / sd\<bar> > t
      then Some (zscore_finding t cap s mu r \<bar>(amount r - mu) / sd\<bar>) else None)"

text \<open>
  The rows that \<open>payment_prepare_rows\<close> builds when the timestamps of the spending
  records parse; an auxiliary of the statements.
\<close>

definition spending_rows :: "(string \<Rightarrow> Timestamp option) \<Rightarrow> TransactionData list \<Rightarrow> prow list" where
  "spending_rows td txns =
     map (\<lambda>t. mk_prow t (the (td (posted_at t)))) (filter (\<lambda>t. txn_amount t < 0) txns)"

section \<open>The spec's merchant key\<close>

text \<open>
  Following the spec's words, not the code: the key of a merchant profile as the spec
  describes it, the merchant name lowercased and trimmed of surrounding blanks.
\<close>

definition lower_char :: "char \<Rightarrow> char" where
  "lower_char c = (if CHR ''A'' \<le> c \<and> c \<le> CHR ''Z'' then char_of (of_char c + (32::nat)) else c)"

definition strip :: "string \<Rightarrow> string" where
  "strip s = rev (dropWhile (\<lambda>c. c = CHR '' '') (rev (dropWhile (\<lambda>c. c = CHR '' '') s)))"

definition lowercase_trimmed :: "string \<Rightarrow> string" where
  "lowercase_trimmed s = map lower_char (strip s)"

section \<open>Example inputs\<close>

text \<open>
  A timestamp given by its day since the epoch, hour and minute, with its weekday, day of
  the month and printed date.
\<close>

definition ex_ts :: "int \<Rightarrow> nat \<Rightarrow> nat \<Rightarrow> nat \<Rightarrow> nat \<Rightarrow> string \<Rightarrow> Timestamp" where
  "ex_ts days h mi wd md ymd =
     \<lparr> ts_value = ((days * 24 + int h) * 60 + int mi) * 60000000000, ts_hour = h,
       ts_dayofweek = wd, ts_day = md, ts_ymd = ymd \<rparr>"

text \<open>The parser on the strings of the examples; every other string is unparsable.\<close>

definition ex_to_datetime :: "string \<Rightarrow> Timestamp option" where
  "ex_to_datetime =
     map_of
       [(''2024-01-01T09:00:00Z'', ex_ts 19723 9 0 0 1 ''2024-01-01''),
        (''2024-02-01T09:00:00Z'', ex_ts 19754 9 0 3 1 ''2024-02-01''),
        (''2024-03-01T09:00:00Z'', ex_ts 19783 9 0 4 1 ''2024-03-01''),
        (''2024-04-01T09:00:00Z'', ex_ts 19814 9 0 0 1 ''2024-04-01''),
        (''2024-05-01T09:00:00Z'', ex_ts 19844 9 0 2 1 ''2024-05-01''),
        (''2024-06-01T09:00:00Z'', ex_ts 19875 9 0 5 1 ''2024-06-01''),
        (''2024-07-01T09:00:00Z'', ex_ts 19905 9 0 0 1 ''2024-07-01''),
        (''2024-01-05T18:30:00Z'', ex_ts 19727 18 30 4 5 ''2024-01-05''),
        (''2024-02-07T18:30:00Z'', ex_ts 19760 18 30 2 7 ''2024-02-07''),
        (''2024-01-15T02:00:00Z'', ex_ts 19737 2 0 0 15 ''2024-01-15''),
        (''2024-01-15T02:10:00Z'', ex_ts 19737 2 10 0 15 ''2024-01-15''),
        (''2024-01-15T02:20:00Z'', ex_ts 19737 2 20 0 15 ''2024-01-15''),
        (''2024-01-15T02:30:00Z'', ex_ts 19737 2 30 0 15 ''2024-01-15''),
        (''2024-01-15T02:40:00Z'', ex_ts 19737 2 40 0 15 ''2024-01-15''),
        (''2024-01-15T04:40:00Z'', ex_ts 19737 4 40 0 15 ''2024-01-15''),
        (''2024-01-16T10:00:00Z'', ex_ts 19738 10 0 1 16 ''2024-01-16''),
        (''2024-01-17T10:00:00Z'', ex_ts 19739 10 0 2 17 ''2024-01-17''),
        (''2024-01-18T10:00:00Z'', ex_ts 19740 10 0 3 18 ''2024-01-18''),
        (''2024-01-19T10:00:00Z'', ex_ts 19741 10 0 4 19 ''2024-01-19'')]"

text \<open>The isolation forest of the examples labels every row an inlier.\<close>

definition ex_isolation_forest :: "real list list \<Rightarrow> (int \<times> real) list" where
  "ex_isolation_forest fs = map (\<lambda>f. (1, 0.1)) fs"

definition ex_txn :: "string \<Rightarrow> string \<Rightarrow> real \<Rightarrow> string \<Rightarrow> string \<Rightarrow> TransactionData" where
  "ex_txn i t a c m =
     \<lparr> txn_id = i, posted_at = t, txn_amount = a, txn_category = c, merchant_name = m,
       txn_is_recurring = False \<rparr>"

text \<open>
  A subscription charged 9.99 on the first of six months and 19.99 on the seventh, alone
  and in a batch with two purchases and a salary whose timestamp is unparsable.
\<close>

definition netflix_txns :: "TransactionData list" where
  "netflix_txns =
     [ex_txn ''n1'' ''2024-01-01T09:00:00Z'' (- 9.99) ''Entertainment'' ''Netflix'',
      ex_txn ''n2'' ''2024-02-01T09:00:00Z'' (- 9.99) ''Entertainment'' ''Netflix'',
      ex_txn ''n3'' ''2024-03-01T09:00:00Z'' (- 9.99) ''Entertainment'' ''Netflix'',
      ex_txn ''n4'' ''2024-04-01T09:00:00Z'' (- 9.99) ''Entertainment'' ''Netflix'',
      ex_txn ''n5'' ''2024-05-01T09:00:00Z'' (- 9.99) ''Entertainment'' ''Netflix'',
      ex_txn ''n6'' ''2024-06-01T09:00:00Z'' (- 9.99) ''Entertainment'' ''Netflix'',
      ex_txn ''n7'' ''2024-07-01T09:00:00Z'' (- 19.99) ''Entertainment'' ''Netflix'']"

definition netflix_batch :: "TransactionData list" where
  "netflix_batch =
     netflix_txns @
     [ex_txn ''g1'' ''2024-01-05T18:30:00Z'' (- 54.20) ''Groceries'' ''Grocer'',
      ex_txn ''g2'' ''2024-02-07T18:30:00Z'' (- 61) ''Groceries'' ''Grocer'',
      ex_txn ''s1'' ''last friday'' 2500 ''Income'' ''Employer'']"

text \<open>
  Five purchases of 20 within forty minutes after two at night, a sixth two hours after the
  fifth, and four more on the following days.
\<close>

definition burst_batch :: "TransactionData list" where
  "burst_batch =
     [ex_txn ''b1'' ''2024-01-15T02:00:00Z'' (- 20) ''Food'' ''Cafe'',
      ex_txn ''b2'' ''2024-01-15T02:10:00Z'' (- 20) ''Food'' ''Kiosk'',
      ex_txn ''b3'' ''2024-01-15T02:20:00Z'' (- 20) ''Food'' ''Taxi'',
      ex_txn ''b4'' ''2024-01-15T02:30:00Z'' (- 20) ''Food'' ''Bar'',
      ex_txn ''b5'' ''2024-01-15T02:40:00Z'' (- 20) ''Food'' ''Diner'',
      ex_txn ''b6'' ''2024-01-15T04:40:00Z'' (- 20) ''Food'' ''Hotel'',
      ex_txn ''b7'' ''2024-01-16T10:00:00Z'' (- 20) ''Food'' ''Grocer'',
      ex_txn ''b8'' ''2024-01-17T10:00:00Z'' (- 20) ''Food'' ''Grocer'',
      ex_txn ''b9'' ''2024-01-18T10:00:00Z'' (- 20) ''Food'' ''Grocer'',
      ex_txn ''b10'' ''2024-01-19T10:00:00Z'' (- 20) ''Food'' ''Grocer'']"

text \<open>The rows of a batch whose timestamps all parse, in the order of the batch.\<close>

definition ex_rows :: "TransactionData list \<Rightarrow> row list" where
  "ex_rows txns = map (\<lambda>t. mk_row t (the (ex_to_datetime (posted_at t)))) txns"


text \<open>Eleven purchases of 50 and one of 5000.\<close>

definition outlier_row :: "string \<Rightarrow> real \<Rightarrow> row" where
  "outlier_row i a =
     mk_row (ex_txn i ''2024-01-16T10:00:00Z'' (- a) ''Shopping'' ''Store'')
            (ex_ts 19738 10 0 1 16 ''2024-01-16'')"

definition outlier_df :: "row list" where
  "outlier_df = map (\<lambda>i. outlier_row i 50)
                    [''t1'', ''t2'', ''t3'', ''t4'', ''t5'', ''t6'', ''t7'', ''t8'', ''t9'', ''t10'', ''t11'']
                @ [outlier_row ''t12'' 5000]"

text \<open>Three rows whose merchant names differ in case and blanks only.\<close>

definition acme_df :: "row list" where
  "acme_df =
     ex_rows [ex_txn ''a1'' ''2024-01-16T10:00:00Z'' (- 10) ''Tools'' ''ACME'',
              ex_txn ''a2'' ''2024-01-17T10:00:00Z'' (- 12) ''Tools'' ''ACME'',
              ex_txn ''a3'' ''2024-01-18T10:00:00Z'' (- 11) ''Tools'' ''acme '']"

text \<open>Three payments to one merchant, a month apart, the first of amount 0.\<close>

definition zero_first_group :: "prow list" where
  "zero_first_group =
     [\<lparr> p_date = ex_ts 19723 9 0 0 1 ''2024-01-01'', p_amount = 0, p_merchant = ''Gym'',
        p_category = ''Health'', p_is_recurring = True \<rparr>,
      \<lparr> p_date = ex_ts 19754 9 0 3 1 ''2024-02-01'', p_amount = 10, p_merchant = ''Gym'',
        p_category = ''Health'', p_is_recurring = True \<rparr>,
      \<lparr> p_date = ex_ts 19783 9 0 4 1 ''2024-03-01'', p_amount = 30, p_merchant = ''Gym'',
        p_category = ''Health'', p_is_recurring = True \<rparr>]"

section \<open>Parsing failures and the minimum batch size\<close>

lemma prepare_rows_unparsable:
  "\<exists>t\<in>set txns. td (posted_at t) = None \<Longrightarrow> prepare_rows td txns = Inl ValueError"
proof (induction txns)
  case Nil
  then show ?case by simp
next
  case (Cons t ts)
  show ?case
  proof (cases "td (posted_at t)")
    case None
    then show ?thesis by simp
  next
    case (Some d)
    with Cons.prems have "\<exists>u\<in>set ts. td (posted_at u) = None" by auto
    with Cons.IH Some show ?thesis by simp
  qed
qed

lemma prepare_rows_parsable:
  "\<forall>t\<in>set txns. td (posted_at t) \<noteq> None \<Longrightarrow>
   prepare_rows td txns = Inr (map (\<lambda>t. mk_row t (the (td (posted_at t)))) txns)"
  by (induction txns) auto

lemma payment_prepare_rows_unparsable:
  "\<exists>t\<in>set txns. txn_amount t < 0 \<and> td (posted_at t) = None \<Longrightarrow>
   payment_prepare_rows td txns = Inl ValueError"
proof (induction txns)
  case Nil
  then show ?case by simp
next
  case (Cons t ts)
  show ?case
  proof (cases "txn_amount t < 0 \<and> td (posted_at t) = None")
    case True
    then show ?thesis by simp
  next
    case False
    with Cons.prems have "\<exists>u\<in>set ts. txn_amount u < 0 \<and> td (posted_at u) = None" by auto
    with Cons.IH show ?thesis by (auto split: option.splits)
  qed
qed

lemma payment_prepare_rows_spending:
  "payment_prepare_rows td txns = payment_prepare_rows td (filter (\<lambda>t. txn_amount t < 0) txns)"
  by (induction txns) (auto split: option.splits sum.splits)

lemma netflix_batch_unparsable: "ex_to_datetime (posted_at (netflix_batch ! 9)) = None"
  by (simp add: netflix_batch_def netflix_txns_def ex_txn_def ex_to_datetime_def)

lemma netflix_batch_try:
  "detect_anomalies_try ex_to_datetime ex_isolation_forest netflix_batch = Inl ValueError"
proof -
  have "\<exists>t\<in>set netflix_batch. ex_to_datetime (posted_at t) = None"
    by (simp add: netflix_batch_def netflix_txns_def ex_txn_def ex_to_datetime_def)
  then have "prepare_rows ex_to_datetime netflix_batch = Inl ValueError"
    by (rule prepare_rows_unparsable)
  then show ?thesis
    by (simp add: detect_anomalies_try_def prepare_data_def netflix_batch_def netflix_txns_def)
qed

lemma income_try:
  "detect_rising_payments_try ex_to_datetime
     (replicate 10 (ex_txn ''s1'' ''last friday'' 2500 ''Income'' ''Employer'')) = Inl KeyError"
proof -
  have "payment_prepare_rows ex_to_datetime
          (replicate n (ex_txn ''s1'' ''last friday'' 2500 ''Income'' ''Employer'')) = Inr []" for n
    by (induction n) (simp_all add: ex_txn_def)
  then show ?thesis by (simp add: detect_rising_payments_try_def payment_prepare_data_def)
qed

text \<open>
  Claim C1, as stated, fails: a batch of ten transactions whose last timestamp is
  unparsable does not make \<open>detect_anomalies\<close> fail; the error is caught and the empty
  list is returned.
\<close>

theorem C1_unparsable_not_propagated:
  "length netflix_batch = 10 \<and> ex_to_datetime (posted_at (netflix_batch ! 9)) = None
   \<and> detect_anomalies ex_to_datetime ex_isolation_forest netflix_batch = Inr []"
  using netflix_batch_try netflix_batch_unparsable
  by (simp add: detect_anomalies_def) (simp add: netflix_batch_def netflix_txns_def)

text \<open>
  Claim C1, amended: a batch with an unparsable timestamp makes \<open>detect_anomalies\<close>
  return the empty list, and a batch with an unparsable timestamp on a spending record
  (negative amount) makes \<open>detect_rising_payments\<close> return the empty list; no error
  reaches the caller. Records that are not spending are dropped by the payment service
  before their timestamp is parsed.
\<close>

theorem C1_unparsable_gives_empty:
  "((\<exists>t\<in>set txns. td (posted_at t) = None) \<longrightarrow> detect_anomalies td ml txns = Inr [])
   \<and> ((\<exists>t\<in>set txns. txn_amount t < 0 \<and> td (posted_at t) = None)
        \<longrightarrow> detect_rising_payments td txns = Inr [])
   \<and> payment_prepare_data td txns = payment_prepare_data td (filter (\<lambda>t. txn_amount t < 0) txns)"
proof (intro conjI impI)
  assume "\<exists>t\<in>set txns. td (posted_at t) = None"
  then have "prepare_rows td txns = Inl ValueError" by (rule prepare_rows_unparsable)
  then show "detect_anomalies td ml txns = Inr []"
    by (simp add: detect_anomalies_def detect_anomalies_try_def prepare_data_def)
next
  assume "\<exists>t\<in>set txns. txn_amount t < 0 \<and> td (posted_at t) = None"
  then have "payment_prepare_rows td txns = Inl ValueError"
    by (rule payment_prepare_rows_unparsable)
  then show "detect_rising_payments td txns = Inr []"
    by (simp add: detect_rising_payments_def detect_rising_payments_try_def
        payment_prepare_data_def)
next
  show "payment_prepare_data td txns = payment_prepare_data td (filter (\<lambda>t. txn_amount t < 0) txns)"
    unfolding payment_prepare_data_def
    using payment_prepare_rows_spending[of td txns] by simp
qed

theorem C1_unparsable_gives_empty_witness:
  "(\<exists>t\<in>set netflix_batch. ex_to_datetime (posted_at t) = None)
   \<and> detect_anomalies ex_to_datetime ex_isolation_forest netflix_batch = Inr []
   \<and> (\<exists>t\<in>set (burst_batch @ [ex_txn ''x1'' ''yesterday'' (- 5) ''Food'' ''Cafe'']).
         txn_amount t < 0 \<and> ex_to_datetime (posted_at t) = None)
   \<and> detect_rising_payments ex_to_datetime
        (burst_batch @ [ex_txn ''x1'' ''yesterday'' (- 5) ''Food'' ''Cafe'']) = Inr []"
proof -
  have h1: "\<exists>t\<in>set netflix_batch. ex_to_datetime (posted_at t) = None"
    by (simp add: netflix_batch_def netflix_txns_def ex_txn_def ex_to_datetime_def)
  have h2: "\<exists>t\<in>set (burst_batch @ [ex_txn ''x1'' ''yesterday'' (- 5) ''Food'' ''Cafe'']).
              txn_amount t < 0 \<and> ex_to_datetime (posted_at t) = None"
    by (simp add: ex_txn_def ex_to_datetime_def)
  show ?thesis
    using h1 h2
      C1_unparsable_gives_empty[of netflix_batch ex_to_datetime ex_isolation_forest]
      C1_unparsable_gives_empty[of "burst_batch @ [ex_txn ''x1'' ''yesterday'' (- 5) ''Food'' ''Cafe'']"
        ex_to_datetime ex_isolation_forest]
    by blast
qed

text \<open>
  Claim C2: with fewer than 10 records, \<open>detect_anomalies\<close> and
  \<open>detect_rising_payments\<close> both return the empty sequence, and neither raises.
\<close>

theorem C2_fewer_than_ten_empty:
  "length txns < 10 \<Longrightarrow>
   detect_anomalies td ml txns = Inr [] \<and> detect_rising_payments td txns = Inr []"
  by (simp add: detect_anomalies_def detect_anomalies_try_def detect_rising_payments_def
      detect_rising_payments_try_def)

theorem C2_fewer_than_ten_empty_witness:
  "length netflix_txns < 10
   \<and> detect_anomalies ex_to_datetime ex_isolation_forest netflix_txns = Inr []
   \<and> detect_rising_payments ex_to_datetime netflix_txns = Inr []"
proof -
  have h: "length netflix_txns < 10" by (simp add: netflix_txns_def)
  show ?thesis using h C2_fewer_than_ten_empty[OF h] by simp
qed

text \<open>
  Claim C10: for every input, \<open>detect_anomalies\<close> and \<open>detect_rising_payments\<close> return
  a list to the caller (\<open>Inr\<close>), never an exception; whenever the body of the
  \<^verbatim>\<open>try\<close> block raises, the empty list is returned.
\<close>

theorem C10_never_raises:
  "(\<exists>out. detect_anomalies td ml txns = Inr out)
   \<and> (\<exists>out. detect_rising_payments td txns = Inr out)
   \<and> (\<forall>e. detect_anomalies_try td ml txns = Inl e \<longrightarrow> detect_anomalies td ml txns = Inr [])
   \<and> (\<forall>e. detect_rising_payments_try td txns = Inl e \<longrightarrow> detect_rising_payments td txns = Inr [])"
  by (simp add: detect_anomalies_def detect_rising_payments_def split: sum.splits)

theorem C10_never_raises_witness:
  "detect_anomalies_try ex_to_datetime ex_isolation_forest netflix_batch = Inl ValueError
   \<and> detect_anomalies ex_to_datetime ex_isolation_forest netflix_batch = Inr []
   \<and> detect_rising_payments_try ex_to_datetime
        (replicate 10 (ex_txn ''s1'' ''last friday'' 2500 ''Income'' ''Employer'')) = Inl KeyError
   \<and> detect_rising_payments ex_to_datetime
        (replicate 10 (ex_txn ''s1'' ''last friday'' 2500 ''Income'' ''Employer'')) = Inr []"
  using netflix_batch_try income_try
    C10_never_raises[of ex_to_datetime ex_isolation_forest netflix_batch]
    C10_never_raises[of ex_to_datetime ex_isolation_forest
      "replicate 10 (ex_txn ''s1'' ''last friday'' 2500 ''Income'' ''Employer'')"]
  by blast

section \<open>Deduplication and the final order\<close>

lemma dedup_loop_subset: "set (dedup_loop seen xs) \<subseteq> set xs"
  by (induction xs arbitrary: seen) auto

lemma dedup_loop_ids: "transaction_id ` set (dedup_loop seen xs) = transaction_id ` set xs - seen"
  by (induction xs arbitrary: seen) auto

lemma dedup_loop_distinct: "distinct (map transaction_id (dedup_loop seen xs))"
proof (induction xs arbitrary: seen)
  case Nil
  show ?case by simp
next
  case (Cons a xs)
  have "transaction_id a \<notin> transaction_id ` set (dedup_loop (insert (transaction_id a) seen) xs)"
    by (simp add: dedup_loop_ids)
  with Cons show ?case by simp
qed

lemma dedup_loop_first:
  "a \<in> set (dedup_loop seen xs) \<Longrightarrow> find (\<lambda>b. transaction_id b = transaction_id a) xs = Some a"
proof (induction xs arbitrary: seen)
  case Nil
  then show ?case by simp
next
  case (Cons x xs)
  show ?case
  proof (cases "transaction_id x = transaction_id a")
    case True
    have "a \<notin> set (dedup_loop (insert (transaction_id x) seen) xs)"
      using dedup_loop_ids[of "insert (transaction_id x) seen" xs] True by blast
    moreover have "transaction_id a \<in> seen \<Longrightarrow> a \<notin> set (dedup_loop seen xs)"
      using dedup_loop_ids[of seen xs] by blast
    ultimately show ?thesis using Cons.prems True by (auto split: if_splits)
  next
    case False
    with Cons show ?thesis by (auto split: if_splits)
  qed
qed

lemma dedup_loop_sorted:
  "sorted_wrt R xs \<Longrightarrow> sorted_wrt R (dedup_loop seen xs)"
proof (induction xs arbitrary: seen)
  case Nil
  then show ?case by simp
next
  case (Cons x xs)
  then show ?case using dedup_loop_subset by (fastforce)
qed

lemma sorted_reverse_set [simp]: "set (sorted_reverse key xs) = set xs"
  by (simp add: sorted_reverse_def)

lemma sorted_reverse_sorted: "sorted_wrt (\<lambda>a b. key a \<ge> key b) (sorted_reverse key xs)"
proof -
  have "sorted (map (\<lambda>x. - key x) (sorted_reverse key xs))"
    unfolding sorted_reverse_def by (rule sorted_sort_key)
  then show ?thesis by (simp add: sorted_map)
qed

lemma sorted_reverse_id:
  "sorted_wrt (\<lambda>a b. key a \<ge> key b) xs \<Longrightarrow> sorted_reverse key xs = xs"
  unfolding sorted_reverse_def by (rule sort_key_id_if_sorted) (simp add: sorted_map)

lemma sorted_reverse_stable:
  "filter (\<lambda>y. key y = k) (sorted_reverse key xs) = filter (\<lambda>y. key y = k) xs"
  using sort_key_stable[of "\<lambda>x. - key x" "- k" xs] by (simp add: sorted_reverse_def)

text \<open>In a list sorted downwards, the first element with a property has the largest key among those with it.\<close>

lemma find_sorted_max:
  "sorted_wrt (\<lambda>a b. key a \<ge> (key b::real)) xs \<Longrightarrow> find P xs = Some a \<Longrightarrow> b \<in> set xs \<Longrightarrow> P b \<Longrightarrow> key b \<le> key a"
  by (induction xs) (auto split: if_splits)

lemma find_filter_hd: "find P xs = Some a \<longleftrightarrow> (filter P xs \<noteq> [] \<and> hd (filter P xs) = a)"
  by (induction xs) auto

lemma find_conj_filter: "find (\<lambda>b. P b \<and> Q b) xs = find P (filter Q xs)"
  by (induction xs) auto

lemma find_Some_kept:
  "find P xs = Some a \<Longrightarrow> Q a \<Longrightarrow> find P (filter Q xs) = Some a"
  by (induction xs) (auto split: if_splits)

lemma dedup_first_max:
  assumes "a \<in> set (deduplicate_anomalies xs)"
  shows "find (\<lambda>b. transaction_id b = transaction_id a \<and> confidence b = confidence a) xs = Some a"
proof -
  let ?s = "sorted_reverse confidence xs"
  have "find (\<lambda>b. transaction_id b = transaction_id a) ?s = Some a"
    using assms unfolding deduplicate_anomalies_def by (rule dedup_loop_first)
  then have "find (\<lambda>b. transaction_id b = transaction_id a) (filter (\<lambda>b. confidence b = confidence a) ?s) = Some a"
    by (rule find_Some_kept) simp
  then have "find (\<lambda>b. transaction_id b = transaction_id a) (filter (\<lambda>b. confidence b = confidence a) xs) = Some a"
    by (simp add: sorted_reverse_stable)
  then show ?thesis by (simp add: find_conj_filter conj_commute)
qed

lemma dedup_max:
  assumes "a \<in> set (deduplicate_anomalies xs)" "b \<in> set xs" "transaction_id b = transaction_id a"
  shows "confidence b \<le> confidence a"
proof -
  let ?s = "sorted_reverse confidence xs"
  have "find (\<lambda>b. transaction_id b = transaction_id a) ?s = Some a"
    using assms(1) unfolding deduplicate_anomalies_def by (rule dedup_loop_first)
  moreover have "sorted_wrt (\<lambda>a b. confidence a \<ge> confidence b) ?s" by (rule sorted_reverse_sorted)
  moreover have "b \<in> set ?s" using assms(2) by simp
  ultimately show ?thesis using assms(3) find_sorted_max[of confidence ?s "\<lambda>b. transaction_id b = transaction_id a" a b] by simp
qed

lemma dedup_ids: "transaction_id ` set (deduplicate_anomalies xs) = transaction_id ` set xs"
  by (simp add: deduplicate_anomalies_def dedup_loop_ids)

lemma dedup_distinct: "distinct (map transaction_id (deduplicate_anomalies xs))"
  by (simp add: deduplicate_anomalies_def dedup_loop_distinct)

lemma dedup_sorted: "sorted_wrt (\<lambda>a b. confidence a \<ge> confidence b) (deduplicate_anomalies xs)"
  unfolding deduplicate_anomalies_def by (intro dedup_loop_sorted sorted_reverse_sorted)

lemma final_sort_id: "sorted_reverse confidence (deduplicate_anomalies xs) = deduplicate_anomalies xs"
  by (rule sorted_reverse_id) (rule dedup_sorted)

section \<open>Constant series\<close>

lemma sum_list_const: "\<forall>x\<in>set xs. x = (c::real) \<Longrightarrow> sum_list xs = real (length xs) * c"
  by (induction xs) (auto simp: algebra_simps)

lemma mean_const: "xs \<noteq> [] \<Longrightarrow> \<forall>x\<in>set xs. x = c \<Longrightarrow> mean xs = c"
  by (simp add: mean_def sum_list_const)

lemma sum_list_zero: "\<forall>x\<in>set xs. x = (0::real) \<Longrightarrow> sum_list xs = 0"
  by (induction xs) auto

lemma sq_dev_const: "\<forall>x\<in>set xs. x = c \<Longrightarrow> sum_list (map (\<lambda>x. (x - mean xs)\<^sup>2) xs) = 0"
proof (cases "xs = []")
  case True
  then show ?thesis by simp
next
  case False
  assume a: "\<forall>x\<in>set xs. x = c"
  with False have "mean xs = c" by (rule mean_const)
  with a show ?thesis by (intro sum_list_zero) auto
qed

lemma np_std_const: "\<forall>x\<in>set xs. x = c \<Longrightarrow> np_std xs = 0"
  by (simp add: np_std_def sq_dev_const)

lemma pd_std_const: "\<forall>x\<in>set xs. x = c \<Longrightarrow> pd_std xs = 0"
  by (simp add: pd_std_def sq_dev_const)

lemma map_filter_none: "\<forall>x\<in>set xs. f x = None \<Longrightarrow> List.map_filter f xs = []"
  by (induction xs) (auto simp: List.map_filter_simps)

lemma zscore_pass_std0: "np_std (map amount rows) = 0 \<Longrightarrow> zscore_pass t cap s rows = []"
  unfolding zscore_pass_def Let_def
  by (rule map_filter_none) (auto simp: abs_zscore_def nan_gt_def dest!: set_zip_rightD)

lemma zscore_pass_const: "\<forall>r\<in>set rows. amount r = c \<Longrightarrow> zscore_pass t cap s rows = []"
  by (rule zscore_pass_std0, rule np_std_const[of _ c]) auto

lemma category_pass_const: "\<forall>r\<in>set df. amount r = c \<Longrightarrow> category_pass df = []"
  unfolding category_pass_def by (auto simp: Let_def intro!: zscore_pass_const[of _ c])

lemma detect_statistical_const: "\<forall>r\<in>set df. amount r = c \<Longrightarrow> detect_statistical_anomalies df = []"
  by (simp add: detect_statistical_anomalies_def global_pass_def zscore_pass_const[of _ c] category_pass_const[of _ c])

lemma set_unique [simp]: "set (unique xs) = set xs"
  by (induction xs rule: unique.induct) auto

lemma distinct_unique [simp]: "distinct (unique xs)"
  by (induction xs rule: unique.induct) auto

lemma fold_profiles:
  "distinct ms \<Longrightarrow>
   fold (\<lambda>m profiles. if P m then profiles(m \<mapsto> g m) else profiles) ms M k =
     (if k \<in> set ms \<and> P k then Some (g k) else M k)"
  by (induction ms arbitrary: M) auto

lemma merchant_profiles_lookup:
  "merchant_profiles df m =
     (if length (filter (\<lambda>r. merchant r = m) df) \<ge> 2
      then Some (build_profile (filter (\<lambda>r. merchant r = m) df)) else None)"
proof -
  have "merchant_profiles df m =
      (if m \<in> set (unique (map merchant df)) \<and> length (filter (\<lambda>r. merchant r = m) df) \<ge> 2
       then Some (build_profile (filter (\<lambda>r. merchant r = m) df)) else Map.empty m)"
    unfolding merchant_profiles_def Let_def
    by (rule fold_profiles[where P = "\<lambda>m. length (filter (\<lambda>r. merchant r = m) df) \<ge> 2"
          and g = "\<lambda>m. build_profile (filter (\<lambda>r. merchant r = m) df)"]) simp
  moreover have "m \<in> set (unique (map merchant df))" if "length (filter (\<lambda>r. merchant r = m) df) \<ge> 2"
  proof -
    from that have "filter (\<lambda>r. merchant r = m) df \<noteq> []" by auto
    then obtain r where "r \<in> set df" "merchant r = m" by (auto simp: filter_empty_conv)
    then show ?thesis by auto
  qed
  ultimately show ?thesis by auto
qed

lemma merchant_const: "\<forall>r\<in>set df. amount r = c \<Longrightarrow> detect_merchant_anomalies df = []"
  unfolding detect_merchant_anomalies_def
proof (rule map_filter_none, rule ballI)
  fix r assume a: "\<forall>r\<in>set df. amount r = c" and "r \<in> set df"
  have "pd_std (map amount (filter (\<lambda>r'. merchant r' = merchant r) df)) = 0"
    using a by (intro pd_std_const[of _ c]) auto
  then show "merchant_check (merchant_profiles df) r = None"
    by (simp add: merchant_check_def merchant_profiles_lookup build_profile_def)
qed

section \<open>The burst example\<close>

lemma burst_parsable: "\<forall>t\<in>set burst_batch. ex_to_datetime (posted_at t) \<noteq> None"
  by (simp add: burst_batch_def ex_txn_def ex_to_datetime_def)

lemma burst_rows: "ex_rows burst_batch = 
  [mk_row (ex_txn ''b1'' ''2024-01-15T02:00:00Z'' (- 20) ''Food'' ''Cafe'') (ex_ts 19737 2 0 0 15 ''2024-01-15''),
   mk_row (ex_txn ''b2'' ''2024-01-15T02:10:00Z'' (- 20) ''Food'' ''Kiosk'') (ex_ts 19737 2 10 0 15 ''2024-01-15''),
   mk_row (ex_txn ''b3'' ''2024-01-15T02:20:00Z'' (- 20) ''Food'' ''Taxi'') (ex_ts 19737 2 20 0 15 ''2024-01-15''),
   mk_row (ex_txn ''b4'' ''2024-01-15T02:30:00Z'' (- 20) ''Food'' ''Bar'') (ex_ts 19737 2 30 0 15 ''2024-01-15''),
   mk_row (ex_txn ''b5'' ''2024-01-15T02:40:00Z'' (- 20) ''Food'' ''Diner'') (ex_ts 19737 2 40 0 15 ''2024-01-15''),
   mk_row (ex_txn ''b6'' ''2024-01-15T04:40:00Z'' (- 20) ''Food'' ''Hotel'') (ex_ts 19737 4 40 0 15 ''2024-01-15''),
   mk_row (ex_txn ''b7'' ''2024-01-16T10:00:00Z'' (- 20) ''Food'' ''Grocer'') (ex_ts 19738 10 0 1 16 ''2024-01-16''),
   mk_row (ex_txn ''b8'' ''2024-01-17T10:00:00Z'' (- 20) ''Food'' ''Grocer'') (ex_ts 19739 10 0 2 17 ''2024-01-17''),
   mk_row (ex_txn ''b9'' ''2024-01-18T10:00:00Z'' (- 20) ''Food'' ''Grocer'') (ex_ts 19740 10 0 3 18 ''2024-01-18''),
   mk_row (ex_txn ''b10'' ''2024-01-19T10:00:00Z'' (- 20) ''Food'' ''Grocer'') (ex_ts 19741 10 0 4 19 ''2024-01-19'')]"
  unfolding ex_rows_def burst_batch_def by (simp add: ex_to_datetime_def ex_txn_def)

lemma burst_values:
  "map (\<lambda>r. ts_value (date r)) (ex_rows burst_batch) =
   [1705284000000000000, 1705284600000000000, 1705285200000000000, 1705285800000000000,
    1705286400000000000, 1705293600000000000, 1705399200000000000, 1705485600000000000,
    1705572000000000000, 1705658400000000000]"
  by (simp add: burst_rows mk_row_def ex_ts_def)

lemma burst_sorted: "sort_values_date (ex_rows burst_batch) = ex_rows burst_batch"
  unfolding sort_values_date_def
  by (rule sort_key_id_if_sorted) (simp add: burst_values)

lemma burst_prepare: "prepare_data ex_to_datetime burst_batch = Inr (ex_rows burst_batch)"
proof -
  have "prepare_rows ex_to_datetime burst_batch = Inr (ex_rows burst_batch)"
    using prepare_rows_parsable[OF burst_parsable] by (simp add: ex_rows_def)
  moreover have "ex_rows burst_batch \<noteq> []" by (simp add: burst_rows)
  ultimately show ?thesis by (simp add: prepare_data_def burst_sorted)
qed

lemma burst_amounts: "\<forall>r\<in>set (ex_rows burst_batch). amount r = 20"
  by (simp add: burst_rows ex_txn_def mk_row_def)

lemma burst_timing: "timing_pass (ex_rows burst_batch) = map timing_finding (take 6 (ex_rows burst_batch))"
proof -
  have "filter (\<lambda>r. 2 \<le> hour r \<and> hour r \<le> 5) (ex_rows burst_batch) = take 6 (ex_rows burst_batch)"
    by (simp add: burst_rows mk_row_def ex_ts_def)
  then show ?thesis by (simp add: timing_pass_def)
qed

lemma time_span_values:
  "time_span w = real_of_int (Max (set (map (\<lambda>r. ts_value (date r)) w)) - Min (set (map (\<lambda>r. ts_value (date r)) w))) / 3600000000000"
  by (simp add: time_span_def Let_def)

lemma burst_window0: "time_span (window (ex_rows burst_batch) 0) \<le> 1"
proof -
  have "map (\<lambda>r. ts_value (date r)) (window (ex_rows burst_batch) 0) = take 5 (map (\<lambda>r. ts_value (date r)) (ex_rows burst_batch))"
    by (simp add: window_def take_map)
  then show ?thesis by (simp add: time_span_values burst_values)
qed

lemma burst_frequency: "frequency_pass (ex_rows burst_batch) = map frequency_finding (take 5 (ex_rows burst_batch))"
proof -
  have len: "length (ex_rows burst_batch) = 10" by (simp add: burst_rows)
  have "[0 ..< length (ex_rows burst_batch) - 4] = 0 # [1 ..< 6]"
    by (simp add: len upt_conv_Cons)
  then show ?thesis using burst_window0
    by (simp add: frequency_pass_def burst_sorted window_def)
qed

lemma burst_candidates:
  "candidates ex_isolation_forest (ex_rows burst_batch) =
     map timing_finding (take 6 (ex_rows burst_batch)) @ map frequency_finding (take 5 (ex_rows burst_batch))"
proof -
  have len: "length (ex_rows burst_batch) = 10" by (simp add: burst_rows)
  show ?thesis
    using detect_statistical_const[OF burst_amounts] merchant_const[OF burst_amounts]
    by (simp add: candidates_def detect_ml_anomalies_def len detect_temporal_anomalies_def burst_timing burst_frequency)
qed


lemma burst_dedup:
  "deduplicate_anomalies (candidates ex_isolation_forest (ex_rows burst_batch)) =
   map frequency_finding (take 5 (ex_rows burst_batch)) @ [timing_finding (ex_rows burst_batch ! 5)]"
  unfolding burst_candidates deduplicate_anomalies_def sorted_reverse_def
  by (simp add: burst_rows timing_finding_def frequency_finding_def mk_row_def ex_txn_def)

lemma burst_detect:
  "detect_anomalies ex_to_datetime ex_isolation_forest burst_batch =
     Inr (map frequency_finding (take 5 (ex_rows burst_batch)) @ [timing_finding (ex_rows burst_batch ! 5)])"
proof -
  have "length burst_batch = 10" by (simp add: burst_batch_def)
  then show ?thesis
    by (simp add: detect_anomalies_def detect_anomalies_try_def burst_prepare final_sort_id)
       (simp add: burst_dedup)
qed

text \<open>
  Claim C3: the output of \<open>detect_anomalies\<close> holds at most one finding per
  \<open>transaction_id\<close>. When the batch has at least 10 records and is prepared into the
  frame \<open>df\<close>, the ids of the output are those of the candidates of the four detectors,
  and the finding kept for an id has the largest confidence among the candidates with
  that id; among those of that confidence it is the first in the order in which the
  detectors are evaluated.
\<close>

theorem C3_one_finding_per_transaction:
  "\<exists>out. detect_anomalies td ml txns = Inr out \<and> distinct (map transaction_id out)
     \<and> (\<forall>df. 10 \<le> length txns \<and> prepare_data td txns = Inr df \<longrightarrow>
          transaction_id ` set out = transaction_id ` set (candidates ml df)
          \<and> (\<forall>a\<in>set out.
                a \<in> set (candidates ml df)
                \<and> (\<forall>b\<in>set (candidates ml df).
                      transaction_id b = transaction_id a \<longrightarrow> confidence b \<le> confidence a)
                \<and> find (\<lambda>b. transaction_id b = transaction_id a \<and> confidence b = confidence a)
                     (candidates ml df) = Some a))"
proof (cases "detect_anomalies_try td ml txns")
  case (Inl e)
  then have "detect_anomalies td ml txns = Inr []" by (simp add: detect_anomalies_def)
  moreover have "\<not> (10 \<le> length txns \<and> prepare_data td txns = Inr df)" for df
    using Inl by (auto simp: detect_anomalies_try_def split: if_splits)
  ultimately show ?thesis by (intro exI[of _ "[]"]) (simp, blast)
next
  case (Inr out)
  then have res: "detect_anomalies td ml txns = Inr out" by (simp add: detect_anomalies_def)
  show ?thesis
  proof (cases "10 \<le> length txns")
    case False
    with Inr have "out = []" by (simp add: detect_anomalies_try_def)
    with res False show ?thesis by simp
  next
    case True
    with Inr obtain df where df: "prepare_data td txns = Inr df"
      and out: "out = deduplicate_anomalies (candidates ml df)"
      by (auto simp: detect_anomalies_try_def final_sort_id split: sum.splits)
    have "a \<in> set (candidates ml df)" if "a \<in> set out" for a
      using that dedup_loop_subset[of "{}" "sorted_reverse confidence (candidates ml df)"]
      by (auto simp: out deduplicate_anomalies_def)
    with res df show ?thesis
      by (auto simp: out dedup_distinct dedup_ids dedup_first_max intro: dedup_max)
  qed
qed

theorem C3_one_finding_per_transaction_witness:
  "10 \<le> length burst_batch \<and> prepare_data ex_to_datetime burst_batch = Inr (ex_rows burst_batch)
   \<and> detect_anomalies ex_to_datetime ex_isolation_forest burst_batch =
       Inr (map frequency_finding (take 5 (ex_rows burst_batch)) @ [timing_finding (ex_rows burst_batch ! 5)])
   \<and> candidates ex_isolation_forest (ex_rows burst_batch) =
       map timing_finding (take 6 (ex_rows burst_batch)) @ map frequency_finding (take 5 (ex_rows burst_batch))
   \<and> confidence (timing_finding (ex_rows burst_batch ! 0)) \<le> confidence (frequency_finding (ex_rows burst_batch ! 0))
   \<and> find (\<lambda>b. transaction_id b = transaction_id (frequency_finding (ex_rows burst_batch ! 0))
                \<and> confidence b = confidence (frequency_finding (ex_rows burst_batch ! 0)))
          (candidates ex_isolation_forest (ex_rows burst_batch))
       = Some (frequency_finding (ex_rows burst_batch ! 0))"
proof -
  let ?rows = "ex_rows burst_batch"
  let ?out = "map frequency_finding (take 5 ?rows) @ [timing_finding (?rows ! 5)]"
  let ?a = "frequency_finding (?rows ! 0)"
  let ?b = "timing_finding (?rows ! 0)"
  have len: "10 \<le> length burst_batch" by (simp add: burst_batch_def)
  have a: "?a \<in> set ?out" by (simp add: burst_rows)
  have b: "?b \<in> set (candidates ex_isolation_forest ?rows)"
    by (simp add: burst_candidates) (simp add: burst_rows)
  have ab: "transaction_id ?b = transaction_id ?a"
    by (simp add: timing_finding_def frequency_finding_def)
  from C3_one_finding_per_transaction[of ex_to_datetime ex_isolation_forest burst_batch]
    len burst_prepare burst_detect
  have "\<forall>a\<in>set ?out.
          (\<forall>b\<in>set (candidates ex_isolation_forest ?rows).
             transaction_id b = transaction_id a \<longrightarrow> confidence b \<le> confidence a)
          \<and> find (\<lambda>b. transaction_id b = transaction_id a \<and> confidence b = confidence a)
               (candidates ex_isolation_forest ?rows) = Some a"
    by auto
  with a b ab have "confidence ?b \<le> confidence ?a
     \<and> find (\<lambda>b. transaction_id b = transaction_id ?a \<and> confidence b = confidence ?a)
               (candidates ex_isolation_forest ?rows) = Some ?a"
    by blast
  with len burst_prepare burst_detect burst_candidates show ?thesis by blast
qed

lemma take_sorted_wrt: "sorted_wrt R xs \<Longrightarrow> sorted_wrt R (take n xs)"
  by (induction xs arbitrary: n) (auto simp: take_Cons' dest: in_set_takeD)

text \<open>
  Claim C4: the sequence returned by \<open>detect_anomalies\<close> is non-increasing in
  \<open>confidence\<close>; the sequence returned by \<open>detect_rising_payments\<close> is
  non-increasing in \<open>increase_percentage\<close> and has at most 10 elements.
\<close>

theorem C4_outputs_sorted:
  "(\<exists>out. detect_anomalies td ml txns = Inr out
          \<and> sorted_wrt (\<lambda>a b. confidence a \<ge> confidence b) out)
   \<and> (\<exists>out. detect_rising_payments td txns = Inr out
          \<and> sorted_wrt (\<lambda>a b. increase_percentage a \<ge> increase_percentage b) out
          \<and> length out \<le> 10)"
proof
  show "\<exists>out. detect_anomalies td ml txns = Inr out \<and> sorted_wrt (\<lambda>a b. confidence a \<ge> confidence b) out"
    by (auto simp: detect_anomalies_def detect_anomalies_try_def sorted_reverse_sorted split: sum.splits)
  show "\<exists>out. detect_rising_payments td txns = Inr out
          \<and> sorted_wrt (\<lambda>a b. increase_percentage a \<ge> increase_percentage b) out \<and> length out \<le> 10"
    by (auto simp: detect_rising_payments_def detect_rising_payments_try_def sorted_reverse_sorted
        take_sorted_wrt split: sum.splits)
qed

section \<open>Degenerate statistics\<close>

lemma analyze_first_zero:
  "p_amount (hd (sort_values_pdate grp)) \<le> 0 \<Longrightarrow> analyze_merchant_payments m grp = None"
proof -
  assume a: "p_amount (hd (sort_values_pdate grp)) \<le> 0"
  have "increase_percentage_of (hd (map p_amount (sort_values_pdate grp))) x = 0"
    if "\<not> length (sort_values_pdate grp) < 3" for x
  proof -
    from that have "sort_values_pdate grp \<noteq> []" by auto
    with a show ?thesis by (simp add: increase_percentage_of_def hd_map)
  qed
  then show ?thesis
    by (simp add: analyze_merchant_payments_def Let_def)
qed

text \<open>
  Claim C5: the numerically degenerate cases give no finding. When the population standard
  deviation of the amounts of all records is 0, the global z-score pass emits nothing (and
  likewise the pass over a category whose amounts have standard deviation 0, and the check
  against a merchant profile of standard deviation 0); when the first amount of a merchant
  is 0, the increase percentage is taken as 0 and the merchant is discarded.
\<close>

theorem C5_degenerate_no_finding:
  "(np_std (map amount df) = 0 \<longrightarrow> global_pass df = [])
   \<and> (np_std (map amount (filter (\<lambda>r. category r = c) df)) = 0
        \<longrightarrow> zscore_pass 2.5 0.90 4.0 (filter (\<lambda>r. category r = c) df) = [])
   \<and> (\<forall>p. profiles (merchant r) = Some p \<and> std_amount p = 0 \<longrightarrow> merchant_check profiles r = None)
   \<and> (older_amount = 0 \<longrightarrow> increase_percentage_of older_amount recent_amount = 0)
   \<and> (p_amount (hd (sort_values_pdate grp)) = 0 \<longrightarrow> analyze_merchant_payments m grp = None)"
  by (auto simp: global_pass_def zscore_pass_std0 merchant_check_def increase_percentage_of_def
      analyze_first_zero)

lemma zero_sorted: "sort_values_pdate zero_first_group = zero_first_group"
  unfolding sort_values_pdate_def
  by (rule sort_key_id_if_sorted) (simp add: zero_first_group_def ex_ts_def)

theorem C5_degenerate_no_finding_witness:
  "np_std (map amount (ex_rows burst_batch)) = 0
   \<and> global_pass (ex_rows burst_batch) = []
   \<and> zscore_pass 2.5 0.90 4.0 (filter (\<lambda>r. category r = ''Food'') (ex_rows burst_batch)) = []
   \<and> merchant_profiles (ex_rows burst_batch) ''Grocer''
        = Some (build_profile (filter (\<lambda>r. merchant r = ''Grocer'') (ex_rows burst_batch)))
   \<and> std_amount (build_profile (filter (\<lambda>r. merchant r = ''Grocer'') (ex_rows burst_batch))) = 0
   \<and> merchant_check (merchant_profiles (ex_rows burst_batch)) (ex_rows burst_batch ! 6) = None
   \<and> increase_percentage_of 0 30 = 0
   \<and> p_amount (hd (sort_values_pdate zero_first_group)) = 0
   \<and> analyze_merchant_payments ''Gym'' zero_first_group = None"
proof -
  let ?df = "ex_rows burst_batch"
  let ?g = "filter (\<lambda>r. merchant r = ''Grocer'') ?df"
  have h1: "np_std (map amount ?df) = 0"
    using burst_amounts by (intro np_std_const[of _ 20]) auto
  have h2: "np_std (map amount (filter (\<lambda>r. category r = ''Food'') ?df)) = 0"
    using burst_amounts by (intro np_std_const[of _ 20]) auto
  have m: "merchant (?df ! 6) = ''Grocer''" by (simp add: burst_rows mk_row_def ex_txn_def)
  have "length ?g = 4" by (simp add: burst_rows mk_row_def ex_txn_def)
  then have h3: "merchant_profiles ?df ''Grocer'' = Some (build_profile ?g)"
    by (simp add: merchant_profiles_lookup)
  have h4: "std_amount (build_profile ?g) = 0"
    using burst_amounts by (simp add: build_profile_def) (intro pd_std_const[of _ 20], auto)
  have h5: "p_amount (hd (sort_values_pdate zero_first_group)) = 0"
    by (simp add: zero_sorted) (simp add: zero_first_group_def)
  show ?thesis
    using h1 h2 h3 h4 h5 m
      C5_degenerate_no_finding[of ?df "''Food''" "merchant_profiles ?df" "?df ! 6" 0 30 zero_first_group "''Gym''"]
    by auto
qed

section \<open>The burst rule\<close>











lemma sort_values_date_length [simp]: "length (sort_values_date df) = length df"
  by (simp add: sort_values_date_def)











section \<open>Merchant profiles\<close>

lemma acme_rows:
  "acme_df =
     [mk_row (ex_txn ''a1'' ''2024-01-16T10:00:00Z'' (- 10) ''Tools'' ''ACME'') (ex_ts 19738 10 0 1 16 ''2024-01-16''),
      mk_row (ex_txn ''a2'' ''2024-01-17T10:00:00Z'' (- 12) ''Tools'' ''ACME'') (ex_ts 19739 10 0 2 17 ''2024-01-17''),
      mk_row (ex_txn ''a3'' ''2024-01-18T10:00:00Z'' (- 11) ''Tools'' ''acme '') (ex_ts 19740 10 0 3 18 ''2024-01-18'')]"
  unfolding acme_df_def ex_rows_def by (simp add: ex_to_datetime_def ex_txn_def)

lemma acme_merchants: "map merchant acme_df = [''ACME'', ''ACME'', ''acme '']"
  by (simp add: acme_rows mk_row_def ex_txn_def)

lemma acme_keys: "lowercase_trimmed ''ACME'' = ''acme'' \<and> lowercase_trimmed ''acme '' = ''acme''"
  by code_simp

lemma map_filter_cong_set:
  "\<forall>x\<in>set xs. f x = g x \<Longrightarrow> List.map_filter f xs = List.map_filter g xs"
  by (induction xs) (auto simp: List.map_filter_simps split: option.splits)

text \<open>
  Claim C9, as stated, fails: the names \<open>''ACME''\<close> and \<open>''acme ''\<close> are equal after
  lowercasing and trimming, but the first has a profile built from the two records of that
  exact name, and the second has no profile at all.
\<close>

theorem C9_profiles_not_normalised:
  "merchant (acme_df ! 0) = ''ACME'' \<and> merchant (acme_df ! 2) = ''acme ''
   \<and> lowercase_trimmed (merchant (acme_df ! 0)) = lowercase_trimmed (merchant (acme_df ! 2))
   \<and> map_option transaction_count (merchant_profiles acme_df (merchant (acme_df ! 0))) = Some 2
   \<and> merchant_profiles acme_df (merchant (acme_df ! 2)) = None"
proof -
  have m0: "merchant (acme_df ! 0) = ''ACME''" and m2: "merchant (acme_df ! 2) = ''acme ''"
    by (simp_all add: acme_rows mk_row_def ex_txn_def)
  have f0: "length (filter (\<lambda>r. merchant r = ''ACME'') acme_df) = 2"
    by (simp add: acme_rows mk_row_def ex_txn_def)
  have f2: "length (filter (\<lambda>r. merchant r = ''acme '') acme_df) = 1"
    by (simp add: acme_rows mk_row_def ex_txn_def)
  show ?thesis
    using acme_keys by (simp add: m0 m2 merchant_profiles_lookup f0 f2 build_profile_def)
qed

text \<open>
  Claim C9, amended: merchant profiles are keyed by the raw merchant name. The profile of a
  name exists when at least two records carry exactly that name, and is built from exactly
  those records; the findings for the records of a name are those of the detector run on
  these records alone.
\<close>

theorem C9_profiles_keyed_by_raw_name:
  "merchant_profiles df m =
     (if 2 \<le> length (filter (\<lambda>r. merchant r = m) df)
      then Some (build_profile (filter (\<lambda>r. merchant r = m) df)) else None)
   \<and> detect_merchant_anomalies (filter (\<lambda>r. merchant r = m) df)
       = List.map_filter (merchant_check (merchant_profiles df)) (filter (\<lambda>r. merchant r = m) df)"
proof
  show "merchant_profiles df m =
     (if 2 \<le> length (filter (\<lambda>r. merchant r = m) df)
      then Some (build_profile (filter (\<lambda>r. merchant r = m) df)) else None)"
    by (rule merchant_profiles_lookup)
  let ?sub = "filter (\<lambda>r. merchant r = m) df"
  have "merchant_check (merchant_profiles ?sub) r = merchant_check (merchant_profiles df) r"
    if "r \<in> set ?sub" for r
  proof -
    from that have "merchant r = m" by simp
    then show ?thesis by (simp add: merchant_check_def merchant_profiles_lookup)
  qed
  then show "detect_merchant_anomalies ?sub = List.map_filter (merchant_check (merchant_profiles df)) ?sub"
    unfolding detect_merchant_anomalies_def by (intro map_filter_cong_set) blast
qed

section \<open>The z-score of a single outlier\<close>

lemma sum_list_map_const: "\<forall>x\<in>set xs. f x = (c::real) \<Longrightarrow> sum_list (map f xs) = real (length xs) * c"
  by (induction xs) (auto simp: algebra_simps)

lemma zip_map_same: "zip xs (map g xs) = map (\<lambda>x. (x, g x)) xs"
  by (induction xs) auto

lemma map_filter_map: "List.map_filter f (map g xs) = List.map_filter (f \<circ> g) xs"
  by (induction xs) (auto simp: List.map_filter_simps split: option.splits)

lemma map_filter_app: "List.map_filter f (xs @ ys) = List.map_filter f xs @ List.map_filter f ys"
  by (simp add: List.map_filter_def)

lemma zscore_pass_alt:
  assumes "np_std (map amount rows) \<noteq> 0"
  shows "zscore_pass t cap s rows =
           List.map_filter (zcheck t cap s (mean (map amount rows)) (np_std (map amount rows))) rows"
proof -
  have z: "zip rows (abs_zscore (map amount rows)) =
        map (\<lambda>r. (r, Some \<bar>(amount r - mean (map amount rows)) / np_std (map amount rows)\<bar>)) rows"
    using assms by (simp add: abs_zscore_def zip_map_same o_def)
  show ?thesis
    unfolding zscore_pass_def Let_def z map_filter_map
    by (intro map_filter_cong_set) (auto simp: nan_gt_def zcheck_def)
qed

lemma outlier_stats:
  assumes len: "length xs + length ys = 11"
    and same: "\<forall>r\<in>set xs \<union> set ys. amount r = a"
    and out: "amount r0 = b" and ne: "a \<noteq> b"
  shows "mean (map amount (xs @ [r0] @ ys)) = (11 * a + b) / 12"
    and "np_std (map amount (xs @ [r0] @ ys)) = sqrt 11 * \<bar>a - b\<bar> / 12"
proof -
  let ?am = "map amount (xs @ [r0] @ ys)"
  let ?mu = "(11 * a + b) / 12"
  have n: "real (length xs) + real (length ys) = 11" using len by linarith
  have sx: "sum_list (map amount xs) = real (length xs) * a"
    and sy: "sum_list (map amount ys) = real (length ys) * a"
    using same by (auto intro!: sum_list_map_const)
  have "sum_list ?am = (real (length xs) + real (length ys)) * a + b"
    by (simp add: sx sy out algebra_simps)
  then have s: "sum_list ?am = 11 * a + b" by (simp add: n)
  have l: "length ?am = 12" using len by simp
  show mu: "mean ?am = ?mu" by (simp only: mean_def s l)
  have dx: "sum_list (map (\<lambda>x. (x - ?mu)\<^sup>2) (map amount xs)) = real (length xs) * (a - ?mu)\<^sup>2"
    and dy: "sum_list (map (\<lambda>x. (x - ?mu)\<^sup>2) (map amount ys)) = real (length ys) * (a - ?mu)\<^sup>2"
    using same by (auto intro!: sum_list_map_const simp: o_def)
  have "sum_list (map (\<lambda>x. (x - ?mu)\<^sup>2) ?am)
          = (real (length xs) + real (length ys)) * (a - ?mu)\<^sup>2 + (b - ?mu)\<^sup>2"
    using dx dy by (simp add: out algebra_simps)
  also have "\<dots> = 11 * (a - ?mu)\<^sup>2 + (b - ?mu)\<^sup>2" by (simp add: n)
  also have "\<dots> = 11 * (a - b)\<^sup>2 / 12"
    by (simp add: power2_eq_square field_simps)
  finally have "np_std ?am = sqrt (11 * (a - b)\<^sup>2 / 12 / 12)"
    by (simp only: np_std_def mu l) simp
  also have "11 * (a - b)\<^sup>2 / 12 / 12 = 11 * ((a - b) / 12)\<^sup>2"
    by (simp add: power2_eq_square)
  also have "sqrt (11 * ((a - b) / 12)\<^sup>2) = sqrt 11 * \<bar>a - b\<bar> / 12"
    by (simp add: real_sqrt_mult)
  finally show "np_std ?am = sqrt 11 * \<bar>a - b\<bar> / 12" .
qed

lemma sqrt11_bounds: "3 < sqrt 11" "sqrt 11 \<le> 4.5" "sqrt 11 * sqrt 11 = 11"
proof -
  show "3 < sqrt 11" by (rule real_less_rsqrt) simp
  show "sqrt 11 \<le> 4.5" by (rule real_le_lsqrt) (simp_all add: power2_eq_square)
  show "sqrt 11 * sqrt 11 = 11" by simp
qed

lemma outlier_z:
  assumes ne: "a \<noteq> (b::real)"
  shows "\<bar>(a - (11 * a + b) / 12) / (sqrt 11 * \<bar>a - b\<bar> / 12)\<bar> = 1 / sqrt 11"
    and "\<bar>(b - (11 * a + b) / 12) / (sqrt 11 * \<bar>a - b\<bar> / 12)\<bar> = sqrt 11"
proof -
  let ?sd = "sqrt 11 * \<bar>a - b\<bar> / 12"
  have pos: "\<bar>a - b\<bar> > 0" using ne by simp
  then have sd: "?sd > 0" by simp
  have abs_div: "\<bar>x / ?sd\<bar> = \<bar>x\<bar> / ?sd" for x
    using sd by (simp only: abs_divide abs_of_pos)
  have "a - (11 * a + b) / 12 = (a - b) / 12" by (simp add: field_simps)
  then have "\<bar>a - (11 * a + b) / 12\<bar> = \<bar>a - b\<bar> / 12" by (simp only:) simp
  then have "\<bar>(a - (11 * a + b) / 12) / ?sd\<bar> = (\<bar>a - b\<bar> / 12) / ?sd"
    by (simp only: abs_div)
  also have "\<dots> = 1 / sqrt 11" using pos by (simp add: field_simps)
  finally show "\<bar>(a - (11 * a + b) / 12) / ?sd\<bar> = 1 / sqrt 11" .
  have "b - (11 * a + b) / 12 = 11 * (b - a) / 12" by (simp add: field_simps)
  moreover have "\<bar>11 * (b - a) / 12\<bar> = 11 * \<bar>a - b\<bar> / 12" by argo
  ultimately have "\<bar>b - (11 * a + b) / 12\<bar> = 11 * \<bar>a - b\<bar> / 12" by (simp only:)
  then have "\<bar>(b - (11 * a + b) / 12) / ?sd\<bar> = (11 * \<bar>a - b\<bar> / 12) / ?sd"
    by (simp only: abs_div)
  also have "\<dots> = 11 / sqrt 11" using pos by (simp add: field_simps)
  also have "\<dots> = sqrt 11" using real_div_sqrt[of 11] by simp
  finally show "\<bar>(b - (11 * a + b) / 12) / ?sd\<bar> = sqrt 11" .
qed

lemma inv_sqrt11: "\<not> 3 < 1 / sqrt 11"
proof -
  have "1 / sqrt 11 \<le> 1" using sqrt11_bounds(1) by (simp add: field_simps)
  then show ?thesis by linarith
qed

lemma outlier_global_pass:
  assumes len: "length xs + length ys = 11"
    and same: "\<forall>r\<in>set xs \<union> set ys. amount r = a"
    and out: "amount r0 = b" and ne: "a \<noteq> b"
  shows "global_pass (xs @ [r0] @ ys) =
           [\<lparr> transaction_id = id_col r0, anomaly_type = UNUSUAL_AMOUNT, severity = ''low'',
              confidence = sqrt 11 / 5, expected_value = Some ((11 * a + b) / 12),
              actual_value = b, z_score = sqrt 11 \<rparr>]"
proof -
  let ?df = "xs @ [r0] @ ys"
  let ?mu = "(11 * a + b) / 12" and ?sd = "sqrt 11 * \<bar>a - b\<bar> / 12"
  note st = outlier_stats[OF len same out ne]
  have sd: "np_std (map amount ?df) \<noteq> 0" using ne by (simp only: st) simp
  have others: "zcheck 3 0.95 5 ?mu ?sd r = None" if "r \<in> set xs \<union> set ys" for r
  proof -
    from that same have "amount r = a" by blast
    then show ?thesis using inv_sqrt11 by (simp only: zcheck_def outlier_z(1)[OF ne]) simp
  qed
  have "calculate_severity (sqrt 11) 3 = ''low''"
    using sqrt11_bounds by (simp add: calculate_severity_def)
  moreover have "min 0.95 (sqrt 11 / 5) = sqrt 11 / 5" using sqrt11_bounds by simp
  ultimately have r0: "zcheck 3 0.95 5 ?mu ?sd r0 =
      Some \<lparr> transaction_id = id_col r0, anomaly_type = UNUSUAL_AMOUNT, severity = ''low'',
              confidence = sqrt 11 / 5, expected_value = Some ?mu,
              actual_value = b, z_score = sqrt 11 \<rparr>"
    using sqrt11_bounds(1) by (simp only: zcheck_def out outlier_z(2)[OF ne] zscore_finding_def) simp
  let ?f = "zcheck 3 0.95 5 ?mu ?sd"
  have x: "List.map_filter ?f xs = []" and y: "List.map_filter ?f ys = []"
    using others by (auto intro!: map_filter_none)
  have one: "List.map_filter ?f [r0] =
      [\<lparr> transaction_id = id_col r0, anomaly_type = UNUSUAL_AMOUNT, severity = ''low'',
              confidence = sqrt 11 / 5, expected_value = Some ?mu,
              actual_value = b, z_score = sqrt 11 \<rparr>]"
    by (simp only: List.map_filter_simps r0 option.simps)
  have "global_pass ?df = zscore_pass 3 0.95 5 ?df" by (simp add: global_pass_def)
  also have "\<dots> = List.map_filter ?f ?df"
    using zscore_pass_alt[OF sd, of 3 "0.95" 5] by (simp only: st)
  also have "\<dots> = List.map_filter ?f xs @ List.map_filter ?f [r0] @ List.map_filter ?f ys"
    by (simp only: map_filter_app)
  finally show ?thesis by (simp only: x y one append_Nil append_Nil2)
qed

lemma sq_dev_expand:
  "sum_list (map (\<lambda>x. (x - m)\<^sup>2) xs)
     = sum_list (map (\<lambda>x. x\<^sup>2) xs) - 2 * m * sum_list xs + real (length xs) * m\<^sup>2"
  by (induction xs) (simp_all add: power2_eq_square algebra_simps)

lemma sum_list_sq_nonneg: "0 \<le> sum_list (map (\<lambda>x. (f x)\<^sup>2) xs)" for f :: "'a \<Rightarrow> real"
  by (induction xs) simp_all

lemma cauchy_schwarz_list:
  "(sum_list xs)\<^sup>2 \<le> real (length xs) * sum_list (map (\<lambda>x. x\<^sup>2) xs)"
proof (cases "xs = []")
  case True
  then show ?thesis by simp
next
  case False
  let ?n = "real (length xs)" and ?S = "sum_list xs" and ?Q = "sum_list (map (\<lambda>x. x\<^sup>2) xs)"
  from False have n: "?n > 0" by simp
  have "0 \<le> sum_list (map (\<lambda>x. (x - ?S / ?n)\<^sup>2) xs)" by (rule sum_list_sq_nonneg)
  also have "\<dots> = ?Q - 2 * (?S / ?n) * ?S + ?n * (?S / ?n)\<^sup>2" by (rule sq_dev_expand)
  also have "\<dots> = ?Q - ?S\<^sup>2 / ?n" using n by (simp add: power2_eq_square field_simps)
  finally have "?S\<^sup>2 / ?n \<le> ?Q" by simp
  then show ?thesis using n by (simp add: field_simps)
qed

lemma sum_list_dev: "xs \<noteq> [] \<Longrightarrow> sum_list (map (\<lambda>y. y - mean xs) xs) = 0"
proof -
  assume "xs \<noteq> []"
  then have n: "real (length xs) > 0" by simp
  have "sum_list (map (\<lambda>y. y - m) xs) = sum_list xs - real (length xs) * m" for m
    by (induction xs) (simp_all add: algebra_simps)
  then show ?thesis using n by (simp add: mean_def)
qed

lemma samuelson:
  assumes "x \<in> set xs"
  shows "real (length xs) * (x - mean xs)\<^sup>2
           \<le> (real (length xs) - 1) * sum_list (map (\<lambda>y. (y - mean xs)\<^sup>2) xs)"
proof -
  define mu where "mu = mean xs"
  define n where "n = real (length xs)"
  define d where "d = x - mu"
  from assms obtain as bs where xs: "xs = as @ x # bs" by (auto simp: in_set_conv_decomp)
  define rest where "rest = map (\<lambda>y. y - mu) (as @ bs)"
  have ne: "xs \<noteq> []" using assms by auto
  have "sum_list (map (\<lambda>y. y - mu) xs) = sum_list rest + d"
    unfolding xs rest_def d_def by simp
  with sum_list_dev[OF ne] have rest: "sum_list rest = - d" by (simp add: mu_def)
  have len: "real (length rest) = n - 1" by (simp add: xs rest_def n_def)
  have "d\<^sup>2 = (sum_list rest)\<^sup>2" by (simp only: rest power2_minus)
  also have "\<dots> \<le> real (length rest) * sum_list (map (\<lambda>y. y\<^sup>2) rest)"
    by (rule cauchy_schwarz_list)
  also have "sum_list (map (\<lambda>y. y\<^sup>2) rest) = sum_list (map (\<lambda>y. (y - mu)\<^sup>2) (as @ bs))"
    by (simp add: rest_def o_def)
  finally have cs: "d\<^sup>2 \<le> (n - 1) * sum_list (map (\<lambda>y. (y - mu)\<^sup>2) (as @ bs))"
    by (simp only: len)
  have all: "sum_list (map (\<lambda>y. (y - mu)\<^sup>2) xs)
           = sum_list (map (\<lambda>y. (y - mu)\<^sup>2) (as @ bs)) + d\<^sup>2"
    unfolding xs d_def by simp
  have "n * d\<^sup>2 = d\<^sup>2 + (n - 1) * d\<^sup>2" by (simp add: algebra_simps)
  also have "\<dots> \<le> (n - 1) * sum_list (map (\<lambda>y. (y - mu)\<^sup>2) (as @ bs)) + (n - 1) * d\<^sup>2"
    using cs by simp
  also have "\<dots> = (n - 1) * sum_list (map (\<lambda>y. (y - mu)\<^sup>2) xs)"
    by (simp only: all) (simp add: algebra_simps)
  finally show ?thesis by (simp only: n_def d_def mu_def)
qed

lemma zscore_bound:
  assumes x: "x \<in> set xs" and sd: "np_std xs \<noteq> 0"
  shows "\<bar>(x - mean xs) / np_std xs\<bar> \<le> sqrt (real (length xs) - 1)"
proof -
  define n where "n = real (length xs)"
  define Q where "Q = sum_list (map (\<lambda>y. (y - mean xs)\<^sup>2) xs)"
  define V where "V = Q / n"
  define d where "d = x - mean xs"
  have n: "n > 0" using x by (cases xs) (auto simp: n_def)
  have Q: "0 \<le> Q" unfolding Q_def by (rule sum_list_sq_nonneg)
  have std: "np_std xs = sqrt V" by (simp add: np_std_def V_def Q_def n_def)
  with sd have "V \<noteq> 0" by auto
  moreover have "0 \<le> V" using Q n by (simp add: V_def)
  ultimately have V: "V > 0" by linarith
  from samuelson[OF x] have "n * d\<^sup>2 \<le> (n - 1) * Q" by (simp only: n_def d_def Q_def)
  then have "d\<^sup>2 \<le> (n - 1) * V" using n by (simp add: V_def field_simps)
  then have "d\<^sup>2 / V \<le> n - 1" using V by (simp add: pos_divide_le_eq)
  then have "sqrt (d\<^sup>2 / V) \<le> sqrt (n - 1)" by (rule real_sqrt_le_mono)
  moreover have "sqrt (d\<^sup>2 / V) = \<bar>d / sqrt V\<bar>"
    using V by (simp add: real_sqrt_divide abs_divide)
  ultimately show ?thesis by (simp only: std d_def n_def)
qed

lemma map_filter_mem: "f \<in> set (List.map_filter g xs) \<Longrightarrow> \<exists>x\<in>set xs. g x = Some f"
  by (auto simp: List.map_filter_def)

lemma global_pass_twelve:
  assumes len: "length df = 12" and f: "f \<in> set (global_pass df)"
  shows "anomaly_type f = UNUSUAL_AMOUNT \<and> severity f = ''low''"
proof (cases "np_std (map amount df) = 0")
  case True
  then have "global_pass df = []" by (simp add: global_pass_def zscore_pass_std0)
  with f show ?thesis by simp
next
  case False
  let ?mu = "mean (map amount df)" and ?sd = "np_std (map amount df)"
  have "global_pass df = zscore_pass 3 0.95 5 df" by (simp add: global_pass_def)
  also have "\<dots> = List.map_filter (zcheck 3 0.95 5 ?mu ?sd) df"
    by (rule zscore_pass_alt[OF False])
  finally obtain r where r: "r \<in> set df" and c: "zcheck 3 0.95 5 ?mu ?sd r = Some f"
    using f by (auto dest: map_filter_mem)
  define z where "z = \<bar>(amount r - ?mu) / ?sd\<bar>"
  from c have fz: "f = zscore_finding 3 0.95 5 ?mu r z"
    by (auto simp: zcheck_def z_def split: if_splits)
  have "z \<le> sqrt (real (length (map amount df)) - 1)"
    unfolding z_def using r False by (intro zscore_bound) auto
  then have "z \<le> sqrt 11" by (simp add: len)
  with sqrt11_bounds(2) have "z \<le> 4.5" by linarith
  then show ?thesis by (simp add: fz zscore_finding_def calculate_severity_def)
qed

lemma outlier_df_split:
  "outlier_df = take 11 outlier_df @ [outlier_row ''t12'' 5000] @ []"
  by (simp add: outlier_df_def)

lemma outlier_df_amounts:
  "\<forall>r\<in>set (take 11 outlier_df) \<union> set []. amount r = 50"
  by (simp add: outlier_df_def outlier_row_def mk_row_def ex_txn_def)

lemma outlier_row_fields: "amount (outlier_row i 5000) = 5000" "id_col (outlier_row i a) = i"
  by (simp_all add: outlier_row_def mk_row_def ex_txn_def)

text \<open>
  Claim C8, as stated, fails: for eleven amounts of 50 and one of 5000, the global pass
  flags the record of 5000 with severity low, not high.
\<close>

theorem C8_outlier_not_high:
  "map amount outlier_df = [50, 50, 50, 50, 50, 50, 50, 50, 50, 50, 50, 5000]
   \<and> map transaction_id (global_pass outlier_df) = [''t12'']
   \<and> map severity (global_pass outlier_df) = [''low'']"
proof -
  have "length (take 11 outlier_df) + length ([]::row list) = 11" by (simp add: outlier_df_def)
  from outlier_global_pass[OF this outlier_df_amounts outlier_row_fields(1), of "''t12''"]
  have "global_pass (take 11 outlier_df @ [outlier_row ''t12'' 5000] @ []) =
          [\<lparr> transaction_id = ''t12'', anomaly_type = UNUSUAL_AMOUNT, severity = ''low'',
             confidence = sqrt 11 / 5, expected_value = Some ((11 * 50 + 5000) / 12),
             actual_value = 5000, z_score = sqrt 11 \<rparr>]"
    by (simp add: outlier_row_fields)
  then have "global_pass outlier_df =
          [\<lparr> transaction_id = ''t12'', anomaly_type = UNUSUAL_AMOUNT, severity = ''low'',
             confidence = sqrt 11 / 5, expected_value = Some ((11 * 50 + 5000) / 12),
             actual_value = 5000, z_score = sqrt 11 \<rparr>]"
    using outlier_df_split by simp
  moreover have "map amount outlier_df = [50, 50, 50, 50, 50, 50, 50, 50, 50, 50, 50, 5000]"
    by (simp add: outlier_df_def outlier_row_def mk_row_def ex_txn_def)
  ultimately show ?thesis by simp
qed

text \<open>
  Claim C8, amended: among 12 records no z-score exceeds the square root of 11, which is
  below 4.5, so every finding of the global pass on 12 records has severity low. With
  eleven records of one amount and a twelfth of another, the global pass flags exactly the
  twelfth, as UNUSUAL_AMOUNT with z-score \<open>sqrt 11\<close>, severity low and confidence
  \<open>sqrt 11 / 5\<close>.
\<close>

theorem C8_twelve_records_severity_low:
  "(length df = 12 \<longrightarrow>
      (\<forall>f\<in>set (global_pass df). anomaly_type f = UNUSUAL_AMOUNT \<and> severity f = ''low''))
   \<and> (length xs + length ys = 11 \<and> (\<forall>r\<in>set xs \<union> set ys. amount r = a) \<and> amount r0 = b \<and> a \<noteq> b
        \<longrightarrow> global_pass (xs @ [r0] @ ys) =
              [\<lparr> transaction_id = id_col r0, anomaly_type = UNUSUAL_AMOUNT, severity = ''low'',
                 confidence = sqrt 11 / 5, expected_value = Some ((11 * a + b) / 12),
                 actual_value = b, z_score = sqrt 11 \<rparr>])"
  using global_pass_twelve outlier_global_pass by blast

theorem C8_twelve_records_severity_low_witness:
  "length outlier_df = 12
   \<and> length (take 11 outlier_df) + length ([]::row list) = 11
   \<and> amount (outlier_row ''t12'' 5000) = 5000
   \<and> global_pass (take 11 outlier_df @ [outlier_row ''t12'' 5000] @ []) =
        [\<lparr> transaction_id = ''t12'', anomaly_type = UNUSUAL_AMOUNT, severity = ''low'',
           confidence = sqrt 11 / 5, expected_value = Some (925 / 2),
           actual_value = 5000, z_score = sqrt 11 \<rparr>]"
proof -
  have h0: "length outlier_df = 12" by (simp add: outlier_df_def)
  have h1: "length (take 11 outlier_df) + length ([]::row list) = 11" by (simp add: outlier_df_def)
  have h2: "(50::real) \<noteq> 5000" by simp
  from C8_twelve_records_severity_low[of outlier_df "take 11 outlier_df" "[]" 50 "outlier_row ''t12'' 5000" 5000]
    h1 h2 outlier_df_amounts outlier_row_fields(1)[of "''t12''"]
  have "global_pass (take 11 outlier_df @ [outlier_row ''t12'' 5000] @ []) =
          [\<lparr> transaction_id = id_col (outlier_row ''t12'' 5000), anomaly_type = UNUSUAL_AMOUNT, severity = ''low'',
             confidence = sqrt 11 / 5, expected_value = Some ((11 * 50 + 5000) / 12),
             actual_value = 5000, z_score = sqrt 11 \<rparr>]"
    by blast
  then show ?thesis using h0 h1 by (simp add: outlier_row_fields)
qed

section \<open>A subscription with a rising charge\<close>

lemma pct: "increase_percentage_of 9.99 19.99 = 100000 / 999"
  by (simp add: increase_percentage_of_def)

lemma rnd1: "py_round (100000 / 999) 1 = 100.1"
proof -
  have "\<lfloor>(100000 / 999 * 10 :: real)\<rfloor> = 1001" by (simp add: floor_eq_iff)
  then show ?thesis by (simp add: py_round_def round_half_even_def Let_def)
qed

lemma rnd2: "py_round 19.99 2 = 19.99" "py_round 9.99 2 = 9.99" "py_round (19.99 - 9.99) 2 = 10"
  by (simp_all add: py_round_def round_half_even_def Let_def)

lemma mean_bounds:
  assumes "xs \<noteq> []" and "\<forall>x\<in>set xs. lo \<le> x \<and> x \<le> hi"
  shows "lo \<le> mean xs \<and> mean xs \<le> hi"
proof -
  have n: "real (length xs) > 0" using assms(1) by simp
  have "real (length xs) * lo \<le> sum_list xs \<and> sum_list xs \<le> real (length xs) * hi"
    using assms(2) by (induction xs) (auto simp: algebra_simps)
  then show ?thesis using n by (simp add: mean_def field_simps)
qed

lemma sq_dev_shift:
  assumes "xs \<noteq> []"
  shows "sum_list (map (\<lambda>x. (x - c)\<^sup>2) xs)
           = sum_list (map (\<lambda>x. (x - mean xs)\<^sup>2) xs) + real (length xs) * (mean xs - c)\<^sup>2"
proof -
  define n where "n = real (length xs)"
  define S where "S = sum_list xs"
  define Q where "Q = sum_list (map (\<lambda>x. x\<^sup>2) xs)"
  define mu where "mu = mean xs"
  have n: "n > 0" using assms by (simp add: n_def)
  have S: "S = n * mu" using n by (simp add: mu_def mean_def S_def n_def)
  have "sum_list (map (\<lambda>x. (x - c)\<^sup>2) xs) = Q - 2 * c * S + n * c\<^sup>2"
    unfolding Q_def S_def n_def by (rule sq_dev_expand)
  moreover have "sum_list (map (\<lambda>x. (x - mu)\<^sup>2) xs) = Q - 2 * mu * S + n * mu\<^sup>2"
    unfolding Q_def S_def n_def by (rule sq_dev_expand)
  ultimately have "sum_list (map (\<lambda>x. (x - c)\<^sup>2) xs)
      = sum_list (map (\<lambda>x. (x - mu)\<^sup>2) xs) + n * (mu - c)\<^sup>2"
    by (simp add: S power2_eq_square algebra_simps)
  then show ?thesis by (simp only: mu_def n_def)
qed

lemma np_std_le:
  assumes ne: "xs \<noteq> []" and b: "\<forall>x\<in>set xs. \<bar>x - c\<bar> \<le> h"
  shows "np_std xs \<le> h"
proof -
  define n where "n = real (length xs)"
  have n: "n > 0" using ne by (simp add: n_def)
  obtain x0 where "x0 \<in> set xs" using ne by (cases xs) auto
  with b have h: "0 \<le> h" by fastforce
  have "sum_list (map (\<lambda>x. (x - c)\<^sup>2) xs) \<le> n * h\<^sup>2"
    unfolding n_def using b
  proof (induction xs)
    case Nil
    then show ?case by simp
  next
    case (Cons x xs)
    then have "\<bar>x - c\<bar> \<le> h" by simp
    then have "(x - c)\<^sup>2 \<le> h\<^sup>2" using abs_le_square_iff[of "x - c" h] h by simp
    with Cons show ?case by (simp add: algebra_simps)
  qed
  moreover have "sum_list (map (\<lambda>x. (x - mean xs)\<^sup>2) xs) \<le> sum_list (map (\<lambda>x. (x - c)\<^sup>2) xs)"
    using sq_dev_shift[OF ne, of c] n by (simp add: n_def)
  ultimately have "sum_list (map (\<lambda>x. (x - mean xs)\<^sup>2) xs) / n \<le> h\<^sup>2"
    using n by (simp add: field_simps)
  then have "np_std xs \<le> sqrt (h\<^sup>2)"
    unfolding np_std_def n_def by (rule real_sqrt_le_mono)
  with h show ?thesis by simp
qed

lemma intervals_length: "length (intervals g) = length g - 1"
  by (simp add: intervals_def Let_def)

lemma monthly_stats:
  assumes len: "3 \<le> length g" and m: "\<forall>i\<in>set (intervals g). 25 \<le> i \<and> i \<le> 35"
  shows "25 \<le> mean (map real_of_int (intervals g))"
    and "mean (map real_of_int (intervals g)) \<le> 35"
    and "np_std (map real_of_int (intervals g)) \<le> 5"
proof -
  let ?ivs = "map real_of_int (intervals g)"
  have ne: "?ivs \<noteq> []" using len intervals_length[of g] by (cases "intervals g") auto
  have "\<forall>x\<in>set ?ivs. 25 \<le> x \<and> x \<le> 35" using m by auto
  from mean_bounds[OF ne this] show "25 \<le> mean ?ivs" "mean ?ivs \<le> 35" by simp_all
  have "\<forall>x\<in>set ?ivs. \<bar>x - 30\<bar> \<le> 5" using m by fastforce
  from np_std_le[OF ne this] show "np_std ?ivs \<le> 5" .
qed

lemma monthly_recurring:
  assumes len: "3 \<le> length g" and m: "\<forall>i\<in>set (intervals g). 25 \<le> i \<and> i \<le> 35"
  shows "is_recurring_pattern g"
    and "7 \<le> mean (map real_of_int (intervals g)) \<and> mean (map real_of_int (intervals g)) \<le> 90
         \<and> np_std (map real_of_int (intervals g)) < mean (map real_of_int (intervals g)) * 0.3"
    and "real (length (filter (\<lambda>i. 25 \<le> i \<and> i \<le> 35) (intervals g))) \<ge> real (length (intervals g)) * 0.7"
proof -
  note st = monthly_stats[OF len m]
  have ne: "intervals g \<noteq> []" using len intervals_length[of g] by (cases "intervals g") auto
  show r1: "7 \<le> mean (map real_of_int (intervals g)) \<and> mean (map real_of_int (intervals g)) \<le> 90
         \<and> np_std (map real_of_int (intervals g)) < mean (map real_of_int (intervals g)) * 0.3"
    using st by simp
  have "filter (\<lambda>i. 25 \<le> i \<and> i \<le> 35) (intervals g) = intervals g" using m by simp
  then show "real (length (filter (\<lambda>i. 25 \<le> i \<and> i \<le> 35) (intervals g))) \<ge> real (length (intervals g)) * 0.7"
    by simp
  show "is_recurring_pattern g"
    using len ne r1 by (simp add: is_recurring_pattern_def Let_def)
qed

lemma monthly_frequency:
  assumes len: "3 \<le> length g" and m: "\<forall>i\<in>set (intervals g). 25 \<le> i \<and> i \<le> 35"
  shows "determine_frequency g = ''monthly''"
  using len monthly_stats(1,2)[OF len m] by (simp add: determine_frequency_def Let_def)

lemma confidence_le: "calculate_confidence g slope pct \<le> 0.95"
  by (simp add: calculate_confidence_def Let_def)

lemma analyze_scenario:
  assumes g: "sort_values_pdate grp = g"
    and am: "map p_amount g = replicate 6 9.99 @ [19.99]"
    and iv: "\<forall>i\<in>set (intervals g). 25 \<le> i \<and> i \<le> 35"
  shows "analyze_merchant_payments m grp =
     Some \<lparr> rp_merchant_name = m, rp_category = p_category (last g),
            current_amount = 19.99, previous_amount = 9.99, increase_percentage = 100.1,
            increase_amount = 10, frequency = ''monthly'',
            rp_confidence = calculate_confidence g (15 / 14) (100000 / 999),
            first_detected = ts_ymd (p_date (hd g)), last_payment = ts_ymd (p_date (last g)),
            recommendation = generate_recommendation m (100000 / 999) ''monthly'' \<rparr>"
proof -
  have len: "length g = 7" using arg_cong[OF am, of length] by simp
  then have len3: "3 \<le> length g" by simp
  have rec: "is_recurring_pattern g = True" using monthly_recurring(1)[OF len3 iv] by simp
  have short: "(length (map p_amount g) < 3) = False" using len by simp
  have sl: "polyfit_slope (map real [0 ..< length (map p_amount g)]) (map p_amount g) = 15 / 14"
    by (simp only: am) (simp add: polyfit_slope_def upt_rec numeral_eq_Suc)
  have la: "last (map p_amount g) = 19.99" and hd: "hd (map p_amount g) = 9.99"
    by (simp_all only: am) (simp_all add: numeral_eq_Suc)
  have fr: "determine_frequency g = ''monthly''" by (rule monthly_frequency[OF len3 iv])
  have gate1: "((15 / 14 :: real) \<le> 0.5) = False" by simp
  have gate2: "((100000 / 999 :: real) < 5) = False" by simp
  have d: "(19.99 :: real) - 9.99 = 10" by simp
  have r10: "py_round 10 2 = 10" by (simp add: py_round_def round_half_even_def Let_def)
  show ?thesis
    by (simp only: analyze_merchant_payments_def Let_def g rec short sl la hd fr pct gate1 gate2
        rnd1 rnd2 d r10 not_True_eq_False if_False)
qed

lemma payment_prepare_rows_ok:
  "\<forall>t\<in>set txns. txn_amount t < 0 \<longrightarrow> td (posted_at t) \<noteq> None \<Longrightarrow>
   payment_prepare_rows td txns = Inr (spending_rows td txns)"
  by (induction txns) (auto simp: spending_rows_def)

lemma sort_values_pdate_idem: "sort_values_pdate (sort_values_pdate xs) = sort_values_pdate xs"
  unfolding sort_values_pdate_def by (rule sort_key_id_if_sorted) simp

lemma map_filter_memI: "x \<in> set xs \<Longrightarrow> f x = Some y \<Longrightarrow> y \<in> set (List.map_filter f xs)"
  by (force simp: List.map_filter_def)

lemma in_take_sorted_reverse:
  assumes mem: "R \<in> set fs" and cnt: "length (filter (\<lambda>r. key r \<ge> key R) fs) \<le> n"
  shows "R \<in> set (take n (sorted_reverse key fs))"
proof -
  let ?xs = "sorted_reverse key fs"
  from mem have "R \<in> set ?xs" by simp
  then obtain as bs where xs: "?xs = as @ R # bs" by (meson split_list)
  have "sorted_wrt (\<lambda>a b. key a \<ge> key b) (as @ R # bs)"
    using sorted_reverse_sorted[of key fs] by (simp only: xs)
  then have before: "\<forall>a\<in>set as. key a \<ge> key R" by (auto simp: sorted_wrt_append)
  have "length (filter (\<lambda>r. key r \<ge> key R) ?xs) = length (filter (\<lambda>r. key r \<ge> key R) fs)"
    by (simp add: sorted_reverse_def filter_sort)
  moreover have "length (filter (\<lambda>r. key r \<ge> key R) ?xs) \<ge> length as + 1"
    using before by (simp add: xs)
  ultimately have "length as < n" using cnt by linarith
  then have "R \<in> set (take n (as @ R # bs))" by (auto simp: take_Cons')
  then show ?thesis by (simp only: xs)
qed

lemma rising_scenario:
  assumes len: "10 \<le> length txns"
    and parse: "\<forall>t\<in>set txns. txn_amount t < 0 \<longrightarrow> td (posted_at t) \<noteq> None"
    and g: "g = sort_values_pdate (filter (\<lambda>r. p_merchant r = m) (spending_rows td txns))"
    and am: "map p_amount g = replicate 6 9.99 @ [19.99]"
    and iv: "\<forall>i\<in>set (intervals g). 25 \<le> i \<and> i \<le> 35"
    and ms: "length (filter (\<lambda>r. increase_percentage r \<ge> 100.1)
                 (rising_payments_of (sort_values_pdate (spending_rows td txns)))) \<le> 10"
  shows "\<exists>out. detect_rising_payments td txns = Inr out
           \<and> \<lparr> rp_merchant_name = m, rp_category = p_category (last g),
                current_amount = 19.99, previous_amount = 9.99, increase_percentage = 100.1,
                increase_amount = 10, frequency = ''monthly'',
                rp_confidence = calculate_confidence g (15 / 14) (100000 / 999),
                first_detected = ts_ymd (p_date (hd g)), last_payment = ts_ymd (p_date (last g)),
                recommendation = generate_recommendation m (100000 / 999) ''monthly'' \<rparr> \<in> set out"
proof -
  let ?rows = "spending_rows td txns"
  let ?df = "sort_values_pdate ?rows"
  let ?R = "\<lparr> rp_merchant_name = m, rp_category = p_category (last g),
                current_amount = 19.99, previous_amount = 9.99, increase_percentage = 100.1,
                increase_amount = 10, frequency = ''monthly'',
                rp_confidence = calculate_confidence g (15 / 14) (100000 / 999),
                first_detected = ts_ymd (p_date (hd g)), last_payment = ts_ymd (p_date (last g)),
                recommendation = generate_recommendation m (100000 / 999) ''monthly'' \<rparr>"
  have lg: "length g = 7" using arg_cong[OF am, of length] by simp
  have grp: "filter (\<lambda>r. p_merchant r = m) ?df = g"
    by (simp add: g sort_values_pdate_def filter_sort)
  have "length (filter (\<lambda>r. p_merchant r = m) ?rows) = 7"
    using lg by (simp add: g sort_values_pdate_def)
  then have ne: "?rows \<noteq> []" by auto
  have dfne: "?df \<noteq> []"
  proof
    assume "?df = []"
    then have "length ?df = 0" by simp
    then show False using ne by (simp add: sort_values_pdate_def)
  qed
  have prep: "payment_prepare_data td txns = Inr ?df"
    using payment_prepare_rows_ok[OF parse] ne by (simp add: payment_prepare_data_def)
  have an: "analyze_merchant_payments m g = Some ?R"
    by (rule analyze_scenario[OF _ am iv]) (simp add: g sort_values_pdate_idem)
  have "g \<noteq> []" using lg by auto
  then obtain r where "r \<in> set ?df" "p_merchant r = m"
    using grp by (metis (mono_tags, lifting) filter_empty_conv)
  then have mem: "m \<in> set (sort (remdups (map p_merchant ?df)))" by auto
  have "(let grp = filter (\<lambda>r. p_merchant r = m) ?df
         in if length grp < 3 then None else analyze_merchant_payments m grp) = Some ?R"
    by (simp add: grp lg an)
  with mem have R: "?R \<in> set (rising_payments_of ?df)"
    unfolding rising_payments_of_def by (rule map_filter_memI)
  have "length (filter (\<lambda>r. increase_percentage r \<ge> increase_percentage ?R)
                 (rising_payments_of ?df)) \<le> 10"
    using ms by simp
  with R have "?R \<in> set (take 10 (sorted_reverse increase_percentage (rising_payments_of ?df)))"
    by (rule in_take_sorted_reverse)
  moreover have "detect_rising_payments td txns
      = Inr (take 10 (sorted_reverse increase_percentage (rising_payments_of ?df)))"
    using len dfne by (simp add: detect_rising_payments_def detect_rising_payments_try_def prep)
  ultimately show ?thesis by simp
qed

lemma sq_dev_monthly:
  assumes ne: "xs \<noteq> []" and b: "\<forall>x\<in>set xs. 25 \<le> x \<and> x \<le> (35::real)"
  shows "sum_list (map (\<lambda>x. (x - mean xs)\<^sup>2) xs) \<le> real (length xs) * ((mean xs - 25) * (35 - mean xs))"
proof -
  define n where "n = real (length xs)"
  define S where "S = sum_list xs"
  define Q where "Q = sum_list (map (\<lambda>x. x\<^sup>2) xs)"
  define mu where "mu = mean xs"
  have n: "n > 0" using ne by (simp add: n_def)
  have S: "S = n * mu" using n by (simp add: mu_def mean_def S_def n_def)
  have "Q \<le> 60 * S - 875 * n"
    unfolding Q_def S_def n_def using b
  proof (induction xs)
    case Nil
    then show ?case by simp
  next
    case (Cons x xs)
    then have "25 \<le> x" "x \<le> 35" by simp_all
    then have "0 \<le> (x - 25) * (35 - x)" by simp
    then have "x\<^sup>2 \<le> 60 * x - 875" by (simp add: power2_eq_square algebra_simps)
    with Cons show ?case by (simp add: algebra_simps)
  qed
  moreover have "sum_list (map (\<lambda>x. (x - mu)\<^sup>2) xs) = Q - 2 * mu * S + n * mu\<^sup>2"
    unfolding Q_def S_def n_def by (rule sq_dev_expand)
  ultimately have "sum_list (map (\<lambda>x. (x - mu)\<^sup>2) xs) \<le> n * ((mu - 25) * (35 - mu))"
    by (simp add: S power2_eq_square algebra_simps)
  then show ?thesis by (simp only: mu_def n_def)
qed

lemma monthly_gate: "(mu - 25) * (35 - mu) < (mu * 0.2)\<^sup>2" for mu :: real
proof -
  have "(mu * 0.2)\<^sup>2 - (mu - 25) * (35 - mu) = (26 / 25) * (mu - 375 / 13)\<^sup>2 + 125 / 13"
    by (simp add: power2_eq_square algebra_simps)
  moreover have "0 < (26 / 25) * (mu - 375 / 13)\<^sup>2 + 125 / 13"
    by (intro add_nonneg_pos mult_nonneg_nonneg) simp_all
  ultimately show ?thesis by linarith
qed

lemma monthly_consistent:
  assumes len: "3 \<le> length g" and m: "\<forall>i\<in>set (intervals g). 25 \<le> i \<and> i \<le> 35"
  shows "has_consistent_intervals g"
proof -
  let ?ivs = "map real_of_int (intervals g)"
  define mu where "mu = mean ?ivs"
  define n where "n = real (length ?ivs)"
  define D where "D = sum_list (map (\<lambda>x. (x - mean ?ivs)\<^sup>2) ?ivs)"
  have ne: "?ivs \<noteq> []" using len intervals_length[of g] by (cases "intervals g") auto
  then have n: "n > 0" by (simp add: n_def)
  have b: "\<forall>x\<in>set ?ivs. 25 \<le> x \<and> x \<le> 35" using m by auto
  have mu: "25 \<le> mu" using mean_bounds[OF ne b] by (simp add: mu_def)
  have "D \<le> n * ((mu - 25) * (35 - mu))"
    unfolding D_def n_def mu_def by (rule sq_dev_monthly[OF ne b])
  then have "D / n \<le> (mu - 25) * (35 - mu)" using n by (simp add: field_simps)
  also have "\<dots> < (mu * 0.2)\<^sup>2" by (rule monthly_gate)
  finally have "sqrt (D / n) < sqrt ((mu * 0.2)\<^sup>2)" by (rule real_sqrt_less_mono)
  moreover have "sqrt ((mu * 0.2)\<^sup>2) = mu * 0.2" using mu by simp
  moreover have "np_std ?ivs = sqrt (D / n)" by (simp add: np_std_def D_def n_def)
  ultimately have "np_std ?ivs < mean ?ivs * 0.2" by (simp only: mu_def)
  moreover have "mean ?ivs > 0" using mu by (simp add: mu_def)
  ultimately show ?thesis using len by (simp add: has_consistent_intervals_def Let_def)
qed

lemma scenario_confidence:
  assumes len: "length g = 7" and m: "\<forall>i\<in>set (intervals g). 25 \<le> i \<and> i \<le> 35"
  shows "calculate_confidence g (15 / 14) (100000 / 999) = 0.95"
proof -
  have "has_consistent_intervals g" using len m by (intro monthly_consistent) simp_all
  then show ?thesis by (simp add: calculate_confidence_def Let_def len)
qed

lemma netflix_spending:
  "spending_rows ex_to_datetime netflix_batch =
    [\<lparr> p_date = ex_ts 19723 9 0 0 1 ''2024-01-01'', p_amount = 9.99, p_merchant = ''Netflix'', p_category = ''Entertainment'', p_is_recurring = False \<rparr>,
     \<lparr> p_date = ex_ts 19754 9 0 3 1 ''2024-02-01'', p_amount = 9.99, p_merchant = ''Netflix'', p_category = ''Entertainment'', p_is_recurring = False \<rparr>,
     \<lparr> p_date = ex_ts 19783 9 0 4 1 ''2024-03-01'', p_amount = 9.99, p_merchant = ''Netflix'', p_category = ''Entertainment'', p_is_recurring = False \<rparr>,
     \<lparr> p_date = ex_ts 19814 9 0 0 1 ''2024-04-01'', p_amount = 9.99, p_merchant = ''Netflix'', p_category = ''Entertainment'', p_is_recurring = False \<rparr>,
     \<lparr> p_date = ex_ts 19844 9 0 2 1 ''2024-05-01'', p_amount = 9.99, p_merchant = ''Netflix'', p_category = ''Entertainment'', p_is_recurring = False \<rparr>,
     \<lparr> p_date = ex_ts 19875 9 0 5 1 ''2024-06-01'', p_amount = 9.99, p_merchant = ''Netflix'', p_category = ''Entertainment'', p_is_recurring = False \<rparr>,
     \<lparr> p_date = ex_ts 19905 9 0 0 1 ''2024-07-01'', p_amount = 19.99, p_merchant = ''Netflix'', p_category = ''Entertainment'', p_is_recurring = False \<rparr>,
     \<lparr> p_date = ex_ts 19727 18 30 4 5 ''2024-01-05'', p_amount = 54.20, p_merchant = ''Grocer'', p_category = ''Groceries'', p_is_recurring = False \<rparr>,
     \<lparr> p_date = ex_ts 19760 18 30 2 7 ''2024-02-07'', p_amount = 61, p_merchant = ''Grocer'', p_category = ''Groceries'', p_is_recurring = False \<rparr>]"
  unfolding spending_rows_def netflix_batch_def netflix_txns_def
  by (simp add: ex_txn_def ex_to_datetime_def mk_prow_def)

lemma netflix_parse: "\<forall>t\<in>set netflix_batch. txn_amount t < 0 \<longrightarrow> ex_to_datetime (posted_at t) \<noteq> None"
  unfolding netflix_batch_def netflix_txns_def by (simp add: ex_txn_def ex_to_datetime_def)

lemma netflix_group:
  "sort_values_pdate (filter (\<lambda>r. p_merchant r = ''Netflix'') (spending_rows ex_to_datetime netflix_batch))
     = take 7 (spending_rows ex_to_datetime netflix_batch)"
proof -
  have "filter (\<lambda>r. p_merchant r = ''Netflix'') (spending_rows ex_to_datetime netflix_batch)
       = take 7 (spending_rows ex_to_datetime netflix_batch)"
    by (simp add: netflix_spending)
  moreover have "sorted (map (\<lambda>r. ts_value (p_date r)) (take 7 (spending_rows ex_to_datetime netflix_batch)))"
    by (simp add: netflix_spending ex_ts_def)
  ultimately show ?thesis by (simp add: sort_values_pdate_def sort_key_id_if_sorted)
qed

lemma netflix_intervals:
  "intervals (take 7 (spending_rows ex_to_datetime netflix_batch)) = [31, 29, 31, 30, 31, 30]"
  by (simp add: netflix_spending intervals_def ex_ts_def)

lemma netflix_amounts:
  "map p_amount (take 7 (spending_rows ex_to_datetime netflix_batch)) = replicate 6 9.99 @ [19.99]"
  by (simp add: netflix_spending numeral_eq_Suc)

lemma recommendation_significant:
  "generate_recommendation m (100000 / 999) ''monthly'' =
     ''Review your monthly payment to '' @ m
       @ '' - it has increased significantly. Consider contacting them about the price change or looking for alternatives.''"
  by (simp add: generate_recommendation_def)

lemma netflix_fields:
  "p_category (last (take 7 (spending_rows ex_to_datetime netflix_batch))) = ''Entertainment''"
  "ts_ymd (p_date (hd (take 7 (spending_rows ex_to_datetime netflix_batch)))) = ''2024-01-01''"
  "ts_ymd (p_date (last (take 7 (spending_rows ex_to_datetime netflix_batch)))) = ''2024-07-01''"
  by (simp_all add: netflix_spending ex_ts_def)

lemma netflix_df:
  "map p_merchant (sort_values_pdate (spending_rows ex_to_datetime netflix_batch))
     = [''Netflix'', ''Grocer'', ''Netflix'', ''Grocer'', ''Netflix'', ''Netflix'', ''Netflix'', ''Netflix'', ''Netflix'']"
  by (simp add: sort_values_pdate_def netflix_spending ex_ts_def)

lemma netflix_names: "sort (remdups [''Netflix'', ''Grocer'', ''Netflix'', ''Grocer'', ''Netflix'', ''Netflix'', ''Netflix'', ''Netflix'', ''Netflix'']) = [''Grocer'', ''Netflix'']"
  by code_simp

lemma netflix_rising:
  "rising_payments_of (sort_values_pdate (spending_rows ex_to_datetime netflix_batch)) =
     [\<lparr> rp_merchant_name = ''Netflix'', rp_category = ''Entertainment'',
             current_amount = 19.99, previous_amount = 9.99, increase_percentage = 100.1,
             increase_amount = 10, frequency = ''monthly'', rp_confidence = 0.95,
             first_detected = ''2024-01-01'', last_payment = ''2024-07-01'',
             recommendation = ''Review your monthly payment to Netflix - it has increased significantly. Consider contacting them about the price change or looking for alternatives.'' \<rparr>]"
proof -
  let ?rows = "spending_rows ex_to_datetime netflix_batch"
  let ?df = "sort_values_pdate ?rows"
  let ?g = "take 7 ?rows"
  have gn: "filter (\<lambda>r. p_merchant r = ''Netflix'') ?df = ?g"
    using netflix_group by (simp add: sort_values_pdate_def filter_sort)
  have "length (filter (\<lambda>r. p_merchant r = ''Grocer'') ?rows) = 2" by (simp add: netflix_spending)
  then have gg: "length (filter (\<lambda>r. p_merchant r = ''Grocer'') ?df) = 2"
    by (simp add: sort_values_pdate_def filter_sort)
  have lg: "length ?g = 7" by (simp add: netflix_spending)
  have lr: "length ?rows = 9" by (simp add: netflix_spending)
  have iv: "\<forall>i\<in>set (intervals ?g). 25 \<le> i \<and> i \<le> 35" by (simp add: netflix_intervals)
  have "sort_values_pdate ?g = ?g" using netflix_group sort_values_pdate_idem by metis
  from analyze_scenario[OF this netflix_amounts iv, of "''Netflix''"]
  have an: "analyze_merchant_payments ''Netflix'' ?g =
     Some \<lparr> rp_merchant_name = ''Netflix'', rp_category = ''Entertainment'',
             current_amount = 19.99, previous_amount = 9.99, increase_percentage = 100.1,
             increase_amount = 10, frequency = ''monthly'', rp_confidence = 0.95,
             first_detected = ''2024-01-01'', last_payment = ''2024-07-01'',
             recommendation = ''Review your monthly payment to Netflix - it has increased significantly. Consider contacting them about the price change or looking for alternatives.'' \<rparr>"
    by (simp only: netflix_fields scenario_confidence[OF lg iv] recommendation_significant
        append_Cons append_Nil)
  show ?thesis
    unfolding rising_payments_of_def netflix_df netflix_names
    by (simp add: List.map_filter_simps gg gn lr an)
qed

lemma netflix_exact:
  "detect_rising_payments ex_to_datetime netflix_batch =
     Inr [\<lparr> rp_merchant_name = ''Netflix'', rp_category = ''Entertainment'',
             current_amount = 19.99, previous_amount = 9.99, increase_percentage = 100.1,
             increase_amount = 10, frequency = ''monthly'', rp_confidence = 0.95,
             first_detected = ''2024-01-01'', last_payment = ''2024-07-01'',
             recommendation = ''Review your monthly payment to Netflix - it has increased significantly. Consider contacting them about the price change or looking for alternatives.'' \<rparr>]"
proof -
  let ?rows = "spending_rows ex_to_datetime netflix_batch"
  let ?df = "sort_values_pdate ?rows"
  have dfne: "?df \<noteq> []" using netflix_df by auto
  have prep: "payment_prepare_data ex_to_datetime netflix_batch = Inr ?df"
    using payment_prepare_rows_ok[OF netflix_parse]
    by (simp add: payment_prepare_data_def) (simp add: netflix_spending)
  have "10 \<le> length netflix_batch" by (simp add: netflix_batch_def netflix_txns_def)
  then show ?thesis
    using dfne
    by (simp add: detect_rising_payments_def detect_rising_payments_try_def prep netflix_rising sorted_reverse_def)
qed

lemma netflix_hyps:
  "10 \<le> length netflix_batch
   \<and> (\<forall>t\<in>set netflix_batch. txn_amount t < 0 \<longrightarrow> ex_to_datetime (posted_at t) \<noteq> None)
   \<and> take 7 (spending_rows ex_to_datetime netflix_batch)
       = sort_values_pdate (filter (\<lambda>r. p_merchant r = ''Netflix'') (spending_rows ex_to_datetime netflix_batch))
   \<and> map p_amount (take 7 (spending_rows ex_to_datetime netflix_batch)) = replicate 6 9.99 @ [19.99]
   \<and> (\<forall>i\<in>set (intervals (take 7 (spending_rows ex_to_datetime netflix_batch))). 25 \<le> i \<and> i \<le> 35)
   \<and> length (filter (\<lambda>r. increase_percentage r \<ge> 100.1)
                (rising_payments_of (sort_values_pdate (spending_rows ex_to_datetime netflix_batch)))) \<le> 10"
proof -
  have "10 \<le> length netflix_batch" by (simp add: netflix_batch_def netflix_txns_def)
  moreover have "\<forall>i\<in>set (intervals (take 7 (spending_rows ex_to_datetime netflix_batch))). 25 \<le> i \<and> i \<le> 35"
    by (simp add: netflix_intervals)
  moreover have "length (filter (\<lambda>r. increase_percentage r \<ge> 100.1)
                (rising_payments_of (sort_values_pdate (spending_rows ex_to_datetime netflix_batch)))) \<le> 10"
    by (simp add: netflix_rising)
  ultimately show ?thesis using netflix_parse netflix_group netflix_amounts by simp
qed

text \<open>
  Claim C7, as stated, fails: a batch holding only the seven payments of the merchant has
  fewer than 10 records, so nothing is emitted; and in a batch of ten records the emitted
  \<open>increase_percentage\<close> is 100.1, not 100.
\<close>

theorem C7_seven_payments_alone:
  "length netflix_txns = 7
   \<and> detect_rising_payments ex_to_datetime netflix_txns = Inr []
   \<and> map increase_percentage
        (case detect_rising_payments ex_to_datetime netflix_batch of Inl e \<Rightarrow> [] | Inr out \<Rightarrow> out)
      = [1001 / 10]"
proof -
  have "length netflix_txns = 7" by (simp add: netflix_txns_def)
  then have "detect_rising_payments ex_to_datetime netflix_txns = Inr []"
    by (simp add: detect_rising_payments_def detect_rising_payments_try_def)
  then show ?thesis using \<open>length netflix_txns = 7\<close> by (simp add: netflix_exact)
qed

text \<open>
  Claim C7, amended: take a batch of at least 10 transactions whose spending records all
  parse, in which at most 10 findings reach an increase of 100.1 percent, and a merchant whose spending records, in time
  order, are six payments of 9.99 and a seventh of 19.99, with 25 to 35 whole days between
  consecutive payments. Then the merchant is classified as recurring (the regular-interval
  rule, which the code tests first, holds, and so does the monthly-pattern condition), the
  fitted slope is 15/14, the increase is 100000/999 percent, and the merchant is emitted with
  \<open>increase_percentage\<close> 100.1, frequency monthly and confidence 0.95.
\<close>

theorem C7_monthly_rise_emitted:
  "10 \<le> length txns
   \<and> (\<forall>t\<in>set txns. txn_amount t < 0 \<longrightarrow> td (posted_at t) \<noteq> None)
   \<and> g = sort_values_pdate (filter (\<lambda>r. p_merchant r = m) (spending_rows td txns))
   \<and> map p_amount g = replicate 6 9.99 @ [19.99]
   \<and> (\<forall>i\<in>set (intervals g). 25 \<le> i \<and> i \<le> 35)
   \<and> length (filter (\<lambda>r. increase_percentage r \<ge> 100.1)
                (rising_payments_of (sort_values_pdate (spending_rows td txns)))) \<le> 10
   \<longrightarrow>
     is_recurring_pattern g
     \<and> (7 \<le> mean (map real_of_int (intervals g)) \<and> mean (map real_of_int (intervals g)) \<le> 90
        \<and> np_std (map real_of_int (intervals g)) < mean (map real_of_int (intervals g)) * 0.3)
     \<and> real (length (filter (\<lambda>i. 25 \<le> i \<and> i \<le> 35) (intervals g))) \<ge> real (length (intervals g)) * 0.7
     \<and> polyfit_slope (map real [0 ..< length (map p_amount g)]) (map p_amount g) = 15 / 14
     \<and> increase_percentage_of (hd (map p_amount g)) (last (map p_amount g)) = 100000 / 999
     \<and> (\<exists>out. detect_rising_payments td txns = Inr out
          \<and> \<lparr> rp_merchant_name = m, rp_category = p_category (last g),
               current_amount = 19.99, previous_amount = 9.99, increase_percentage = 100.1,
               increase_amount = 10, frequency = ''monthly'', rp_confidence = 0.95,
               first_detected = ts_ymd (p_date (hd g)), last_payment = ts_ymd (p_date (last g)),
               recommendation = ''Review your monthly payment to '' @ m
                 @ '' - it has increased significantly. Consider contacting them about the price change or looking for alternatives.'' \<rparr>
             \<in> set out)"
proof (intro impI)
  assume a: "10 \<le> length txns
   \<and> (\<forall>t\<in>set txns. txn_amount t < 0 \<longrightarrow> td (posted_at t) \<noteq> None)
   \<and> g = sort_values_pdate (filter (\<lambda>r. p_merchant r = m) (spending_rows td txns))
   \<and> map p_amount g = replicate 6 9.99 @ [19.99]
   \<and> (\<forall>i\<in>set (intervals g). 25 \<le> i \<and> i \<le> 35)
   \<and> length (filter (\<lambda>r. increase_percentage r \<ge> 100.1)
                (rising_payments_of (sort_values_pdate (spending_rows td txns)))) \<le> 10"
  then have len: "10 \<le> length txns"
    and parse: "\<forall>t\<in>set txns. txn_amount t < 0 \<longrightarrow> td (posted_at t) \<noteq> None"
    and g: "g = sort_values_pdate (filter (\<lambda>r. p_merchant r = m) (spending_rows td txns))"
    and am: "map p_amount g = replicate 6 9.99 @ [19.99]"
    and iv: "\<forall>i\<in>set (intervals g). 25 \<le> i \<and> i \<le> 35"
    and ms: "length (filter (\<lambda>r. increase_percentage r \<ge> 100.1)
                 (rising_payments_of (sort_values_pdate (spending_rows td txns)))) \<le> 10"
    by blast+
  have lg: "length g = 7" using arg_cong[OF am, of length] by simp
  then have l3: "3 \<le> length g" by simp
  have sl: "polyfit_slope (map real [0 ..< length (map p_amount g)]) (map p_amount g) = 15 / 14"
    by (simp only: am) (simp add: polyfit_slope_def upt_rec numeral_eq_Suc)
  have pc: "increase_percentage_of (hd (map p_amount g)) (last (map p_amount g)) = 100000 / 999"
    by (simp only: am) (simp add: numeral_eq_Suc increase_percentage_of_def)
  from rising_scenario[OF len parse g am iv ms]
  have "\<exists>out. detect_rising_payments td txns = Inr out
          \<and> \<lparr> rp_merchant_name = m, rp_category = p_category (last g),
               current_amount = 19.99, previous_amount = 9.99, increase_percentage = 100.1,
               increase_amount = 10, frequency = ''monthly'', rp_confidence = 0.95,
               first_detected = ts_ymd (p_date (hd g)), last_payment = ts_ymd (p_date (last g)),
               recommendation = ''Review your monthly payment to '' @ m
                 @ '' - it has increased significantly. Consider contacting them about the price change or looking for alternatives.'' \<rparr>
             \<in> set out"
    by (simp only: scenario_confidence[OF lg iv] recommendation_significant)
  with monthly_recurring[OF l3 iv] sl pc show "is_recurring_pattern g
     \<and> (7 \<le> mean (map real_of_int (intervals g)) \<and> mean (map real_of_int (intervals g)) \<le> 90
        \<and> np_std (map real_of_int (intervals g)) < mean (map real_of_int (intervals g)) * 0.3)
     \<and> real (length (filter (\<lambda>i. 25 \<le> i \<and> i \<le> 35) (intervals g))) \<ge> real (length (intervals g)) * 0.7
     \<and> polyfit_slope (map real [0 ..< length (map p_amount g)]) (map p_amount g) = 15 / 14
     \<and> increase_percentage_of (hd (map p_amount g)) (last (map p_amount g)) = 100000 / 999
     \<and> (\<exists>out. detect_rising_payments td txns = Inr out
          \<and> \<lparr> rp_merchant_name = m, rp_category = p_category (last g),
               current_amount = 19.99, previous_amount = 9.99, increase_percentage = 100.1,
               increase_amount = 10, frequency = ''monthly'', rp_confidence = 0.95,
               first_detected = ts_ymd (p_date (hd g)), last_payment = ts_ymd (p_date (last g)),
               recommendation = ''Review your monthly payment to '' @ m
                 @ '' - it has increased significantly. Consider contacting them about the price change or looking for alternatives.'' \<rparr>
             \<in> set out)"
    by blast
qed

theorem C7_monthly_rise_emitted_witness:
  "10 \<le> length netflix_batch
   \<and> map p_amount (take 7 (spending_rows ex_to_datetime netflix_batch)) = replicate 6 9.99 @ [19.99]
   \<and> intervals (take 7 (spending_rows ex_to_datetime netflix_batch)) = [31, 29, 31, 30, 31, 30]
   \<and> is_recurring_pattern (take 7 (spending_rows ex_to_datetime netflix_batch))
   \<and> (\<exists>out. detect_rising_payments ex_to_datetime netflix_batch = Inr out
        \<and> \<lparr> rp_merchant_name = ''Netflix'', rp_category = ''Entertainment'',
             current_amount = 19.99, previous_amount = 9.99, increase_percentage = 100.1,
             increase_amount = 10, frequency = ''monthly'', rp_confidence = 0.95,
             first_detected = ''2024-01-01'', last_payment = ''2024-07-01'',
             recommendation = ''Review your monthly payment to Netflix - it has increased significantly. Consider contacting them about the price change or looking for alternatives.'' \<rparr>
           \<in> set out)"
proof -
  let ?g = "take 7 (spending_rows ex_to_datetime netflix_batch)"
  from C7_monthly_rise_emitted[of netflix_batch ex_to_datetime ?g "''Netflix''"] netflix_hyps
  have "is_recurring_pattern ?g
     \<and> (\<exists>out. detect_rising_payments ex_to_datetime netflix_batch = Inr out
          \<and> \<lparr> rp_merchant_name = ''Netflix'', rp_category = p_category (last ?g),
               current_amount = 19.99, previous_amount = 9.99, increase_percentage = 100.1,
               increase_amount = 10, frequency = ''monthly'', rp_confidence = 0.95,
               first_detected = ts_ymd (p_date (hd ?g)), last_payment = ts_ymd (p_date (last ?g)),
               recommendation = ''Review your monthly payment to '' @ ''Netflix''
                 @ '' - it has increased significantly. Consider contacting them about the price change or looking for alternatives.'' \<rparr>
             \<in> set out)"
    by blast
  then have "is_recurring_pattern ?g
     \<and> (\<exists>out. detect_rising_payments ex_to_datetime netflix_batch = Inr out
          \<and> \<lparr> rp_merchant_name = ''Netflix'', rp_category = ''Entertainment'',
               current_amount = 19.99, previous_amount = 9.99, increase_percentage = 100.1,
               increase_amount = 10, frequency = ''monthly'', rp_confidence = 0.95,
               first_detected = ''2024-01-01'', last_payment = ''2024-07-01'',
               recommendation = ''Review your monthly payment to Netflix - it has increased significantly. Consider contacting them about the price change or looking for alternatives.'' \<rparr>
             \<in> set out)"
    by (simp only: netflix_fields append_Cons append_Nil)
  moreover have "10 \<le> length netflix_batch" by (simp add: netflix_batch_def netflix_txns_def)
  ultimately show ?thesis
    using netflix_amounts netflix_intervals by blast
qed

end
